theory Spec2Isabelle
  imports Main
begin

unbundle bit_operations_syntax

section \<open>Go values, failures and slices\<close>

text \<open>
  The encoder is a Go program.  A Go function can fail in two ways: it returns a
  non-nil \<open>error\<close> value, or it panics (an explicit \<open>panic\<close>, an index out of
  range, a nil pointer dereference).  Both are values of the model: a fallible function
  returns \<open>failure + 'a\<close>, with \<open>Inl (Err e)\<close> for a returned error and
  \<open>Inl (Panic p)\<close> for a panic.  Go's \<open>int\<close> is modelled as an unbounded \<open>int\<close>;
  no quantity of the encoder comes near the 64-bit range.
\<close>

datatype gerror =
    ErrGlog int                       \<comment> \<open>\<open>glog(n)\<close> with \<open>n < 1\<close>\<close>
  | ErrEmptyPolynomial int            \<comment> \<open>\<open>NewPolynomial\<close> on an empty coefficient slice\<close>
  | ErrBadRSBlock int int             \<comment> \<open>\<open>bad rs block @ version / error_correction\<close>\<close>
  | ErrCodeLengthOverflow int int     \<comment> \<open>\<open>code length overflow. Data size > size available\<close>\<close>

datatype panic =
    IndexOutOfRange
  | NilDereference
  | NegativeLen                       \<comment> \<open>\<open>make\<close> with a negative length\<close>
  | NegativeShift
  | InvalidVersion int
  | InvalidMode int
  | DataOverflow                      \<comment> \<open>\<open>panic("Data overflow error")\<close>\<close>
  | BadMaskPattern
  | RegexpRepeat                      \<comment> \<open>\<open>regexp.MustCompile\<close> on a repeat count above 1000\<close>
  | PanicErr gerror                   \<comment> \<open>\<open>panic(err)\<close>\<close>
  | Diverges                          \<comment> \<open>a loop that never ends\<close>

datatype failure = Err gerror | Panic panic

fun bnd :: "failure + 'a \<Rightarrow> ('a \<Rightarrow> failure + 'b) \<Rightarrow> failure + 'b" where
  "bnd (Inl e) f = Inl e"
| "bnd (Inr x) f = f x"

text \<open>Go's integer division and remainder truncate towards zero.\<close>

definition go_div :: "int \<Rightarrow> int \<Rightarrow> int" where
  "go_div a b = sgn a * sgn b * (\<bar>a\<bar> div \<bar>b\<bar>)"

definition go_mod :: "int \<Rightarrow> int \<Rightarrow> int" where
  "go_mod a b = a - b * go_div a b"

text \<open>
  Slice indexing \<open>xs[i]\<close> and the assignment \<open>xs[i] = v\<close>: an index out of range
  panics.  The walk down the list is by the position counted in \<open>nat\<close>.
\<close>

fun at_nat :: "'a list \<Rightarrow> nat \<Rightarrow> failure + 'a" where
  "at_nat [] n = Inl (Panic IndexOutOfRange)"
| "at_nat (x # xs) 0 = Inr x"
| "at_nat (x # xs) (Suc n) = at_nat xs n"

definition at :: "'a list \<Rightarrow> int \<Rightarrow> failure + 'a" where
  "at xs i = (if i < 0 then Inl (Panic IndexOutOfRange) else at_nat xs (nat i))"

fun cons_ok :: "'a \<Rightarrow> failure + 'a list \<Rightarrow> failure + 'a list" where
  "cons_ok x (Inl e) = Inl e"
| "cons_ok x (Inr xs) = Inr (x # xs)"

fun upd_nat :: "'a list \<Rightarrow> nat \<Rightarrow> 'a \<Rightarrow> failure + 'a list" where
  "upd_nat [] n v = Inl (Panic IndexOutOfRange)"
| "upd_nat (x # xs) 0 v = Inr (v # xs)"
| "upd_nat (x # xs) (Suc n) v = cons_ok x (upd_nat xs n v)"

definition upd :: "'a list \<Rightarrow> int \<Rightarrow> 'a \<Rightarrow> failure + 'a list" where
  "upd xs i v = (if i < 0 then Inl (Panic IndexOutOfRange) else upd_nat xs (nat i) v)"

definition len :: "'a list \<Rightarrow> int" where
  "len xs = int (length xs)"

text \<open>\<open>make([]T, n)\<close>: a slice of \<open>n\<close> zero values; a negative \<open>n\<close> panics.\<close>

definition make_slice :: "int \<Rightarrow> 'a \<Rightarrow> failure + 'a list" where
  "make_slice n z = (if n < 0 then Inl (Panic NegativeLen) else Inr (replicate (nat n) z))"

text \<open>
  \<open>for i := i0; i < n; i++ { body }\<close> over a state that every round replaces; a failure
  of the body ends the loop.  The bound is a value that the body does not change.
\<close>

function for_loop :: "int \<Rightarrow> int \<Rightarrow> (int \<Rightarrow> 's \<Rightarrow> failure + 's) \<Rightarrow> 's \<Rightarrow> failure + 's" where
  "for_loop i n body s =
     (if i < n then (case body i s of Inl e \<Rightarrow> Inl e | Inr s' \<Rightarrow> for_loop (i + 1) n body s')
      else Inr s)"
  by pat_completeness auto
termination
  by (relation "measure (\<lambda>(i, n, body, s). nat (n - i))") auto

declare for_loop.simps [simp del]

section \<open>base: GF(256), polynomials and the Reed-Solomon block table\<close>

text \<open>
  \<open>init\<close> fills \<open>EXP_TABLE\<close> and \<open>LOG_TABLE\<close> (256 entries each, zero at first) with three
  loops.
\<close>

definition EXP_TABLE :: "int list" where
  "EXP_TABLE =
     (let t0 = replicate 256 0;
          t1 = fold (\<lambda>i t. t[i := push_bit i 1]) [0..<8] t0
      in fold (\<lambda>i t. t[i := t ! (i - 4) XOR t ! (i - 5) XOR t ! (i - 6) XOR t ! (i - 8)])
           [8..<256] t1)"

definition LOG_TABLE :: "int list" where
  "LOG_TABLE = fold (\<lambda>i t. t[nat (EXP_TABLE ! i) := int i]) [0..<255] (replicate 256 0)"

text \<open>
  The package \<open>constants\<close> (the integer values of \<open>ERROR_CORRECT_L\<close>, \<open>_M\<close>, \<open>_Q\<close>
  and \<open>_H\<close>) is not among the sources.  Its four values are a parameter of the model.
\<close>

record constants =
  ERROR_CORRECT_L :: int
  ERROR_CORRECT_M :: int
  ERROR_CORRECT_Q :: int
  ERROR_CORRECT_H :: int

text \<open>
  \<open>RS_BLOCK_OFFSET\<close> is a map literal keyed by the four constants (Go rejects a
  literal with duplicate constant keys, so the order of the tests is immaterial).
\<close>

definition RS_BLOCK_OFFSET :: "constants \<Rightarrow> int \<Rightarrow> int option" where
  "RS_BLOCK_OFFSET K ec =
     (if ec = ERROR_CORRECT_L K then Some 0
      else if ec = ERROR_CORRECT_M K then Some 1
      else if ec = ERROR_CORRECT_Q K then Some 2
      else if ec = ERROR_CORRECT_H K then Some 3
      else None)"

definition RS_BLOCK_TABLE :: "int list list" where
  "RS_BLOCK_TABLE = [
    [1, 26, 19], [1, 26, 16], [1, 26, 13], [1, 26, 9],
    [1, 44, 34], [1, 44, 28], [1, 44, 22], [1, 44, 16],
    [1, 70, 55], [1, 70, 44], [2, 35, 17], [2, 35, 13],
    [1, 100, 80], [2, 50, 32], [2, 50, 24], [4, 25, 9],
    [1, 134, 108], [2, 67, 43], [2, 33, 15, 2, 34, 16], [2, 33, 11, 2, 34, 12],
    [2, 86, 68], [4, 43, 27], [4, 43, 19], [4, 43, 15],
    [2, 98, 78], [4, 49, 31], [2, 32, 14, 4, 33, 15], [4, 39, 13, 1, 40, 14],
    [2, 121, 97], [2, 60, 38, 2, 61, 39], [4, 40, 18, 2, 41, 19], [4, 40, 14, 2, 41, 15],
    [2, 146, 116], [3, 58, 36, 2, 59, 37], [4, 36, 16, 4, 37, 17], [4, 36, 12, 4, 37, 13],
    [2, 86, 68, 2, 87, 69], [4, 69, 43, 1, 70, 44], [6, 43, 19, 2, 44, 20], [6, 43, 15, 2, 44, 16],
    [4, 101, 81], [1, 80, 50, 4, 81, 51], [4, 50, 22, 4, 51, 23], [3, 36, 12, 8, 37, 13],
    [2, 116, 92, 2, 117, 93], [6, 58, 36, 2, 59, 37], [4, 46, 20, 6, 47, 21], [7, 42, 14, 4, 43, 15],
    [4, 133, 107], [8, 59, 37, 1, 60, 38], [8, 44, 20, 4, 45, 21], [12, 33, 11, 4, 34, 12],
    [3, 145, 115, 1, 146, 116], [4, 64, 40, 5, 65, 41], [11, 36, 16, 5, 37, 17], [11, 36, 12, 5, 37, 13],
    [5, 109, 87, 1, 110, 88], [5, 65, 41, 5, 66, 42], [5, 54, 24, 7, 55, 25], [11, 36, 12, 7, 37, 13],
    [5, 122, 98, 1, 123, 99], [7, 73, 45, 3, 74, 46], [15, 43, 19, 2, 44, 20], [3, 45, 15, 13, 46, 16],
    [1, 135, 107, 5, 136, 108], [10, 74, 46, 1, 75, 47], [1, 50, 22, 15, 51, 23], [2, 42, 14, 17, 43, 15],
    [5, 150, 120, 1, 151, 121], [9, 69, 43, 4, 70, 44], [17, 50, 22, 1, 51, 23], [2, 42, 14, 19, 43, 15],
    [3, 141, 113, 4, 142, 114], [3, 70, 44, 11, 71, 45], [17, 47, 21, 4, 48, 22], [9, 39, 13, 16, 40, 14],
    [3, 135, 107, 5, 136, 108], [3, 67, 41, 13, 68, 42], [15, 54, 24, 5, 55, 25], [15, 43, 15, 10, 44, 16],
    [4, 144, 116, 4, 145, 117], [17, 68, 42], [17, 50, 22, 6, 51, 23], [19, 46, 16, 6, 47, 17],
    [2, 139, 111, 7, 140, 112], [17, 74, 46], [7, 54, 24, 16, 55, 25], [34, 37, 13],
    [4, 151, 121, 5, 152, 122], [4, 75, 47, 14, 76, 48], [11, 54, 24, 14, 55, 25], [16, 45, 15, 14, 46, 16],
    [6, 147, 117, 4, 148, 118], [6, 73, 45, 14, 74, 46], [11, 54, 24, 16, 55, 25], [30, 46, 16, 2, 47, 17],
    [8, 132, 106, 4, 133, 107], [8, 75, 47, 13, 76, 48], [7, 54, 24, 22, 55, 25], [22, 45, 15, 13, 46, 16],
    [10, 142, 114, 2, 143, 115], [19, 74, 46, 4, 75, 47], [28, 50, 22, 6, 51, 23], [33, 46, 16, 4, 47, 17],
    [8, 152, 122, 4, 153, 123], [22, 73, 45, 3, 74, 46], [8, 53, 23, 26, 54, 24], [12, 45, 15, 28, 46, 16],
    [3, 147, 117, 10, 148, 118], [3, 73, 45, 23, 74, 46], [4, 54, 24, 31, 55, 25], [11, 45, 15, 31, 46, 16],
    [7, 146, 116, 7, 147, 117], [21, 73, 45, 7, 74, 46], [1, 53, 23, 37, 54, 24], [19, 45, 15, 26, 46, 16],
    [5, 145, 115, 10, 146, 116], [19, 75, 47, 10, 76, 48], [15, 54, 24, 25, 55, 25], [23, 45, 15, 25, 46, 16],
    [13, 145, 115, 3, 146, 116], [2, 74, 46, 29, 75, 47], [42, 54, 24, 1, 55, 25], [23, 45, 15, 28, 46, 16],
    [17, 145, 115], [10, 74, 46, 23, 75, 47], [10, 54, 24, 35, 55, 25], [19, 45, 15, 35, 46, 16],
    [17, 145, 115, 1, 146, 116], [14, 74, 46, 21, 75, 47], [29, 54, 24, 19, 55, 25], [11, 45, 15, 46, 46, 16],
    [13, 145, 115, 6, 146, 116], [14, 74, 46, 23, 75, 47], [44, 54, 24, 7, 55, 25], [59, 46, 16, 1, 47, 17],
    [12, 151, 121, 7, 152, 122], [12, 75, 47, 26, 76, 48], [39, 54, 24, 14, 55, 25], [22, 45, 15, 41, 46, 16],
    [6, 151, 121, 14, 152, 122], [6, 75, 47, 34, 76, 48], [46, 54, 24, 10, 55, 25], [2, 45, 15, 64, 46, 16],
    [17, 152, 122, 4, 153, 123], [29, 74, 46, 14, 75, 47], [49, 54, 24, 10, 55, 25], [24, 45, 15, 46, 46, 16],
    [4, 152, 122, 18, 153, 123], [13, 74, 46, 32, 75, 47], [48, 54, 24, 14, 55, 25], [42, 45, 15, 32, 46, 16],
    [20, 147, 117, 4, 148, 118], [40, 75, 47, 7, 76, 48], [43, 54, 24, 22, 55, 25], [10, 45, 15, 67, 46, 16],
    [19, 148, 118, 6, 149, 119], [18, 75, 47, 31, 76, 48], [34, 54, 24, 34, 55, 25], [20, 45, 15, 61, 46, 16]
  ]"

definition glog :: "int \<Rightarrow> failure + int" where
  "glog n = (if n < 1 then Inl (Err (ErrGlog n)) else at LOG_TABLE n)"

definition Gexp :: "int \<Rightarrow> failure + int" where
  "Gexp n = at EXP_TABLE (go_mod n 255)"

datatype Polynomial = Polynomial (num: "int list")

text \<open>
  \<open>for offset = range num { if num[offset] != 0 { break } }\<close>: the index of the first
  non-zero coefficient, or of the last coefficient when all are zero.
\<close>

fun lead_offset :: "int list \<Rightarrow> nat" where
  "lead_offset [] = 0"
| "lead_offset (x # xs) = (if x \<noteq> 0 \<or> xs = [] then 0 else Suc (lead_offset xs))"

definition NewPolynomial :: "int list \<Rightarrow> int \<Rightarrow> failure + Polynomial" where
  "NewPolynomial nm shift =
     (if nm = [] then Inl (Err (ErrEmptyPolynomial shift))
      else bnd (make_slice shift 0) (\<lambda>zs. Inr (Polynomial (drop (lead_offset nm) nm @ zs))))"

definition Get :: "Polynomial \<Rightarrow> int \<Rightarrow> failure + int" where
  "Get p index = at (num p) index"

definition Len :: "Polynomial \<Rightarrow> int" where
  "Len p = len (num p)"

text \<open>\<open>Mul\<close>: the two nested \<open>range\<close> loops, the accumulator \<open>num\<close> threaded through.\<close>

fun Mul_inner :: "int \<Rightarrow> int \<Rightarrow> int \<Rightarrow> int list \<Rightarrow> int list \<Rightarrow> failure + int list" where
  "Mul_inner i item j [] nm = Inr nm"
| "Mul_inner i item j (otherItem # rest) nm =
     bnd (glog item) (\<lambda>glogItem.
     bnd (glog otherItem) (\<lambda>glogOtherItem.
     bnd (Gexp (glogItem + glogOtherItem)) (\<lambda>e.
     bnd (at nm (i + j)) (\<lambda>old.
     bnd (upd nm (i + j) (old XOR e)) (\<lambda>nm'.
     Mul_inner i item (j + 1) rest nm')))))"

fun Mul_outer :: "int \<Rightarrow> int list \<Rightarrow> int list \<Rightarrow> int list \<Rightarrow> failure + int list" where
  "Mul_outer i [] other nm = Inr nm"
| "Mul_outer i (item # rest) other nm =
     bnd (Mul_inner i item 0 other nm) (\<lambda>nm'. Mul_outer (i + 1) rest other nm')"

definition Mul :: "Polynomial \<Rightarrow> Polynomial \<Rightarrow> failure + Polynomial" where
  "Mul p other =
     bnd (make_slice (Len p + Len other - 1) 0) (\<lambda>nm.
     bnd (Mul_outer 0 (num p) (num other) nm) (\<lambda>nm'.
     NewPolynomial nm' 0))"

text \<open>
  One round of the loop of \<open>Mod\<close>: the ratio of the leading coefficients, the scaled
  divisor XORed into a copy of the coefficients, leading zeros removed
  (\<open>for len(num) > 0 && num[0] == 0 { num = num[1:] }\<close>), and \<open>NewPolynomial\<close>, which
  refuses what is left when nothing is.
\<close>

fun Mod_xor :: "int \<Rightarrow> int \<Rightarrow> int list \<Rightarrow> int list \<Rightarrow> failure + int list" where
  "Mod_xor ratio i [] nm = Inr nm"
| "Mod_xor ratio i (otherItem # rest) nm =
     bnd (glog otherItem) (\<lambda>glogOtherItem.
     bnd (Gexp (glogOtherItem + ratio)) (\<lambda>e.
     bnd (at nm i) (\<lambda>old.
     bnd (upd nm i (old XOR e)) (\<lambda>nm'.
     Mod_xor ratio (i + 1) rest nm'))))"

definition Mod_step :: "Polynomial \<Rightarrow> Polynomial \<Rightarrow> failure + Polynomial" where
  "Mod_step p other =
     bnd (Get p 0) (\<lambda>p0.
     bnd (glog p0) (\<lambda>glogP0.
     bnd (Get other 0) (\<lambda>other0.
     bnd (glog other0) (\<lambda>glogOther0.
     bnd (Mod_xor (glogP0 - glogOther0) 0 (num other) (num p)) (\<lambda>nm.
     NewPolynomial (dropWhile (\<lambda>x. x = 0) nm) 0)))))"

datatype RSBlock = RSBlock (TotalCount: int) (DataCount: int)

text \<open>
  The expansion loop of \<open>RSBlocks\<close> reads \<open>rsBlock[i]\<close>, \<open>rsBlock[i+1]\<close> and
  \<open>rsBlock[i+2]\<close>; a row whose length is not a multiple of three would panic.
\<close>

fun RSBlocks_expand :: "int list \<Rightarrow> failure + RSBlock list" where
  "RSBlocks_expand [] = Inr []"
| "RSBlocks_expand (count # totalCount # dataCount # rest) =
     bnd (RSBlocks_expand rest) (\<lambda>blocks.
       Inr (replicate (nat count) (RSBlock totalCount dataCount) @ blocks))"
| "RSBlocks_expand _ = Inl (Panic IndexOutOfRange)"

definition RSBlocks :: "constants \<Rightarrow> int \<Rightarrow> int \<Rightarrow> failure + RSBlock list" where
  "RSBlocks K version errorCorrection =
     (case RS_BLOCK_OFFSET K errorCorrection of
        None \<Rightarrow> Inl (Err (ErrBadRSBlock version errorCorrection))
      | Some offset \<Rightarrow>
          bnd (at RS_BLOCK_TABLE ((version - 1) * 4 + offset)) RSBlocks_expand)"

subsection \<open>The tables, evaluated\<close>

lemma EXP_TABLE_eq [code]:
  "EXP_TABLE = [
      1, 2, 4, 8, 16, 32, 64, 128, 29, 58, 116, 232, 205, 135, 19, 38,
      76, 152, 45, 90, 180, 117, 234, 201, 143, 3, 6, 12, 24, 48, 96, 192,
      157, 39, 78, 156, 37, 74, 148, 53, 106, 212, 181, 119, 238, 193, 159, 35,
      70, 140, 5, 10, 20, 40, 80, 160, 93, 186, 105, 210, 185, 111, 222, 161,
      95, 190, 97, 194, 153, 47, 94, 188, 101, 202, 137, 15, 30, 60, 120, 240,
      253, 231, 211, 187, 107, 214, 177, 127, 254, 225, 223, 163, 91, 182, 113, 226,
      217, 175, 67, 134, 17, 34, 68, 136, 13, 26, 52, 104, 208, 189, 103, 206,
      129, 31, 62, 124, 248, 237, 199, 147, 59, 118, 236, 197, 151, 51, 102, 204,
      133, 23, 46, 92, 184, 109, 218, 169, 79, 158, 33, 66, 132, 21, 42, 84,
      168, 77, 154, 41, 82, 164, 85, 170, 73, 146, 57, 114, 228, 213, 183, 115,
      230, 209, 191, 99, 198, 145, 63, 126, 252, 229, 215, 179, 123, 246, 241, 255,
      227, 219, 171, 75, 150, 49, 98, 196, 149, 55, 110, 220, 165, 87, 174, 65,
      130, 25, 50, 100, 200, 141, 7, 14, 28, 56, 112, 224, 221, 167, 83, 166,
      81, 162, 89, 178, 121, 242, 249, 239, 195, 155, 43, 86, 172, 69, 138, 9,
      18, 36, 72, 144, 61, 122, 244, 245, 247, 243, 251, 235, 203, 139, 11, 22,
      44, 88, 176, 125, 250, 233, 207, 131, 27, 54, 108, 216, 173, 71, 142, 1]"
  by code_simp

lemma LOG_TABLE_eq [code]:
  "LOG_TABLE = [
      0, 0, 1, 25, 2, 50, 26, 198, 3, 223, 51, 238, 27, 104, 199, 75,
      4, 100, 224, 14, 52, 141, 239, 129, 28, 193, 105, 248, 200, 8, 76, 113,
      5, 138, 101, 47, 225, 36, 15, 33, 53, 147, 142, 218, 240, 18, 130, 69,
      29, 181, 194, 125, 106, 39, 249, 185, 201, 154, 9, 120, 77, 228, 114, 166,
      6, 191, 139, 98, 102, 221, 48, 253, 226, 152, 37, 179, 16, 145, 34, 136,
      54, 208, 148, 206, 143, 150, 219, 189, 241, 210, 19, 92, 131, 56, 70, 64,
      30, 66, 182, 163, 195, 72, 126, 110, 107, 58, 40, 84, 250, 133, 186, 61,
      202, 94, 155, 159, 10, 21, 121, 43, 78, 212, 229, 172, 115, 243, 167, 87,
      7, 112, 192, 247, 140, 128, 99, 13, 103, 74, 222, 237, 49, 197, 254, 24,
      227, 165, 153, 119, 38, 184, 180, 124, 17, 68, 146, 217, 35, 32, 137, 46,
      55, 63, 209, 91, 149, 188, 207, 205, 144, 135, 151, 178, 220, 252, 190, 97,
      242, 86, 211, 171, 20, 42, 93, 158, 132, 60, 57, 83, 71, 109, 65, 162,
      31, 45, 67, 216, 183, 123, 164, 118, 196, 23, 73, 236, 127, 12, 111, 246,
      108, 161, 59, 82, 41, 157, 85, 170, 251, 96, 134, 177, 187, 204, 62, 90,
      203, 89, 95, 176, 156, 169, 160, 81, 11, 245, 22, 235, 122, 117, 44, 215,
      79, 174, 213, 233, 230, 231, 173, 232, 116, 214, 244, 234, 168, 80, 88, 175]"
  by code_simp

text \<open>On the non-zero field elements, \<open>Gexp\<close> undoes \<open>glog\<close>.\<close>

lemma Gexp_glog_all: "list_all (\<lambda>x. bnd (glog x) Gexp = Inr x) [1..255]"
  by code_simp

lemma at_nat_eq:
  "at_nat xs n = (if n < length xs then Inr (xs ! n) else Inl (Panic IndexOutOfRange))"
  by (induction xs n rule: at_nat.induct) auto

lemma at_eq:
  "at xs i = (if 0 \<le> i \<and> i < len xs then Inr (xs ! nat i) else Inl (Panic IndexOutOfRange))"
  by (auto simp: at_def at_nat_eq len_def)

lemma upd_nat_eq:
  "upd_nat xs n v = (if n < length xs then Inr (xs[n := v]) else Inl (Panic IndexOutOfRange))"
  by (induction xs n v rule: upd_nat.induct) auto

lemma upd_eq:
  "upd xs i v = (if 0 \<le> i \<and> i < len xs then Inr (xs[nat i := v]) else Inl (Panic IndexOutOfRange))"
  by (auto simp: upd_def upd_nat_eq len_def)

lemma bnd_Inr_iff:
  "bnd m f = Inr y \<longleftrightarrow> (\<exists>x. m = Inr x \<and> f x = Inr y)"
  by (cases m) auto

lemma len_LOG_TABLE: "len LOG_TABLE = 256"
  by (simp add: LOG_TABLE_eq len_def)

lemma Gexp_glog: "glog x = Inr g \<Longrightarrow> Gexp g = Inr x"
proof -
  assume g: "glog x = Inr g"
  then have "1 \<le> x" and "x < 256"
    by (auto simp: glog_def at_eq len_LOG_TABLE split: if_splits)
  then have "x \<in> set [1..255]" by simp
  with Gexp_glog_all have "bnd (glog x) Gexp = Inr x"
    unfolding list_all_iff by blast
  with g show ?thesis by simp
qed

lemma Mod_xor_keeps:
  "Mod_xor ratio i other nm = Inr nm' \<Longrightarrow> 0 \<le> i \<Longrightarrow>
     length nm' = length nm \<and> (\<forall>k. int k < i \<longrightarrow> nm' ! k = nm ! k)"
proof (induction ratio i other nm arbitrary: nm' rule: Mod_xor.induct)
  case (1 ratio i nm)
  then show ?case by simp
next
  case (2 ratio i otherItem rest nm)
  from "2.prems"(1) obtain gl e old nm1 where
    s: "glog otherItem = Inr gl" "Gexp (gl + ratio) = Inr e" "at nm i = Inr old"
       "upd nm i (old XOR e) = Inr nm1" "Mod_xor ratio (i + 1) rest nm1 = Inr nm'"
    by (auto simp: bnd_Inr_iff)
  from s(4) have nm1: "nm1 = nm[nat i := old XOR e]"
    by (auto simp: upd_eq split: if_splits)
  from "2.IH"[OF s(5)] "2.prems"(2)
  have "length nm' = length nm1 \<and> (\<forall>k. int k < i + 1 \<longrightarrow> nm' ! k = nm1 ! k)" by simp
  with nm1 "2.prems"(2) show ?case by auto
qed

lemma Mod_step_shorter:
  assumes "Mod_step p other = Inr p'"
  shows "length (num p') < length (num p)"
proof -
  from assms obtain p0 gp o0 go nm where
    s: "Get p 0 = Inr p0" "glog p0 = Inr gp" "Get other 0 = Inr o0" "glog o0 = Inr go"
       "Mod_xor (gp - go) 0 (num other) (num p) = Inr nm"
       "NewPolynomial (dropWhile (\<lambda>x. x = 0) nm) 0 = Inr p'"
    by (auto simp: Mod_step_def bnd_Inr_iff)
  from s(1) obtain ps where p: "num p = p0 # ps"
    by (cases "num p") (auto simp: Get_def at_eq len_def split: if_splits)
  from s(3) obtain os where o: "num other = o0 # os"
    by (cases "num other") (auto simp: Get_def at_eq len_def split: if_splits)
  from Gexp_glog[OF s(2)] have e: "Gexp gp = Inr p0" .
  from s(5) s(4) e have rest: "Mod_xor (gp - go) 1 os (0 # ps) = Inr nm"
    by (simp add: p o at_eq upd_eq len_def)
  from Mod_xor_keeps[OF rest] have "length nm = Suc (length ps)" and "nm ! 0 = 0"
    by (simp, force)
  then obtain ns where nm: "nm = 0 # ns" and ns: "length ns = length ps"
    by (cases nm) auto
  have "length (dropWhile (\<lambda>x. x = 0) nm) \<le> length ns"
    by (simp add: nm length_dropWhile_le)
  moreover from s(6) have "length (num p') \<le> length (dropWhile (\<lambda>x. x = 0) nm)"
    by (auto simp: NewPolynomial_def make_slice_def split: if_splits)
  ultimately show ?thesis by (simp add: p ns)
qed

text \<open>
  \<open>Mod\<close>: \<open>for p.Len() >= other.Len() { ... }\<close>; the test \<open>difference < 0\<close> inside the
  loop returns \<open>p\<close>.  Every round that does not fail removes the leading coefficient.
\<close>

function Mod :: "Polynomial \<Rightarrow> Polynomial \<Rightarrow> failure + Polynomial" where
  "Mod p other =
     (if Len p \<ge> Len other then
        (if Len p - Len other < 0 then Inr p
         else (case Mod_step p other of Inl e \<Rightarrow> Inl e | Inr p' \<Rightarrow> Mod p' other))
      else Inr p)"
  by pat_completeness auto
termination
  by (relation "measure (\<lambda>(p, other). length (num p))") (auto dest: Mod_step_shorter)

declare Mod.simps [simp del]

section \<open>utils: modes, the bit buffer and the segments\<close>

definition ModeNumeric :: int where "ModeNumeric = 1"
definition ModeAlphanumeric :: int where "ModeAlphanumeric = 2"
definition ModeByte :: int where "ModeByte = 4"
definition ModeKanji :: int where "ModeKanji = 8"

text \<open>A Go map from \<open>int\<close> to \<open>int\<close> is an association list; a missing key reads as 0.\<close>

definition lookup0 :: "(int \<times> int) list \<Rightarrow> int \<Rightarrow> int" where
  "lookup0 m k = (case map_of m k of None \<Rightarrow> 0 | Some v \<Rightarrow> v)"

definition ModeSizeSmall :: "(int \<times> int) list" where
  "ModeSizeSmall = [(ModeNumeric, 10), (ModeAlphanumeric, 9), (ModeByte, 8), (ModeKanji, 8)]"

definition ModeSizeMedium :: "(int \<times> int) list" where
  "ModeSizeMedium = [(ModeNumeric, 12), (ModeAlphanumeric, 11), (ModeByte, 16), (ModeKanji, 10)]"

definition ModeSizeLarge :: "(int \<times> int) list" where
  "ModeSizeLarge = [(ModeNumeric, 14), (ModeAlphanumeric, 13), (ModeByte, 16), (ModeKanji, 12)]"

definition AlphanumericChars :: string where
  "AlphanumericChars = ''0123456789ABCDEFGHIJKLMNOPQRSTUVWXYZ $%*+-./:''"

definition NumberLength :: "(int \<times> int) list" where
  "NumberLength = [(3, 10), (2, 7), (1, 4)]"

definition ModeSizeVersion :: "int \<Rightarrow> (int \<times> int) list" where
  "ModeSizeVersion version =
     (if version \<le> 9 then ModeSizeSmall
      else if version \<le> 26 then ModeSizeMedium
      else ModeSizeLarge)"

definition CheckVersion :: "int \<Rightarrow> bool" where
  "CheckVersion version \<longleftrightarrow> version \<ge> 1 \<and> version \<le> 40"

definition LengthInBits :: "int \<Rightarrow> int \<Rightarrow> failure + int" where
  "LengthInBits mode version =
     (if mode \<noteq> ModeNumeric \<and> mode \<noteq> ModeAlphanumeric \<and> mode \<noteq> ModeByte \<and> mode \<noteq> ModeKanji
      then Inl (Panic (InvalidMode mode))
      else if \<not> CheckVersion version then Inl (Panic (InvalidVersion version))
      else Inr (lookup0 (ModeSizeVersion version) mode))"

subsection \<open>BitBuffer\<close>

datatype BitBuffer = BitBuffer (buffer: "int list") (lengthB: int)

definition NewBitBuffer :: BitBuffer where
  "NewBitBuffer = BitBuffer [] 0"

text \<open>
  \<open>Get\<close> indexes the backing bytes only: \<open>b.buffer[index / 8]\<close>, then the bit
  \<open>7 - index % 8\<close> of that byte.  The field \<open>length\<close> is not consulted.
\<close>

definition BitBuffer_Get :: "BitBuffer \<Rightarrow> int \<Rightarrow> failure + bool" where
  "BitBuffer_Get b index =
     bnd (at (buffer b) (go_div index 8)) (\<lambda>byte.
       if 7 - go_mod index 8 < 0 then Inl (Panic NegativeShift)
       else Inr ((drop_bit (nat (7 - go_mod index 8)) byte) AND 1 = 1))"

definition BitBuffer_Len :: "BitBuffer \<Rightarrow> int" where
  "BitBuffer_Len b = lengthB b"

definition PutBit :: "BitBuffer \<Rightarrow> bool \<Rightarrow> failure + BitBuffer" where
  "PutBit b bitv =
     (let bufIndex = go_div (lengthB b) 8;
          buf = (if len (buffer b) \<le> bufIndex then buffer b @ [0] else buffer b)
      in if bitv then
           bnd (at buf bufIndex) (\<lambda>old.
             if go_mod (lengthB b) 8 < 0 then Inl (Panic NegativeShift)
             else bnd (upd buf bufIndex (old OR drop_bit (nat (go_mod (lengthB b) 8)) 128)) (\<lambda>buf'.
               Inr (BitBuffer buf' (lengthB b + 1))))
         else Inr (BitBuffer buf (lengthB b + 1)))"

definition Put :: "BitBuffer \<Rightarrow> int \<Rightarrow> int \<Rightarrow> failure + BitBuffer" where
  "Put b n leng =
     for_loop 0 leng
       (\<lambda>i b. PutBit b ((drop_bit (nat (leng - i - 1)) n) AND 1 = 1)) b"

subsection \<open>QRData\<close>

datatype QRData = QRData (data: string) (mode: int)

definition QRData_Len :: "QRData \<Rightarrow> int" where
  "QRData_Len q = len (data q)"

definition GetMode :: "QRData \<Rightarrow> int" where
  "GetMode q = mode q"

text \<open>\<open>result*10 + int(b - '0')\<close>: the subtraction is on bytes and wraps.\<close>

definition bytesToInt :: "string \<Rightarrow> int" where
  "bytesToInt bytes = fold (\<lambda>b result. result * 10 + ((of_char b - 48) mod 256)) bytes 0"

text \<open>\<open>strings.IndexByte\<close>: the first position of the byte, or \<open>-1\<close>.\<close>

fun IndexByte :: "string \<Rightarrow> char \<Rightarrow> int" where
  "IndexByte [] c = -1"
| "IndexByte (x # xs) c = (if x = c then 0 else (let r = IndexByte xs c in if r < 0 then -1 else r + 1))"

definition alphanumericIndex :: "char \<Rightarrow> int" where
  "alphanumericIndex c = IndexByte AlphanumericChars c"

fun Write_numeric :: "string \<Rightarrow> BitBuffer \<Rightarrow> failure + BitBuffer" where
  "Write_numeric [] b = Inr b"
| "Write_numeric (c0 # c1 # c2 # rest) b =
     bnd (Put b (bytesToInt [c0, c1, c2]) (lookup0 NumberLength 3)) (Write_numeric rest)"
| "Write_numeric chars b = Put b (bytesToInt chars) (lookup0 NumberLength (len chars))"

fun Write_alphanumeric :: "string \<Rightarrow> BitBuffer \<Rightarrow> failure + BitBuffer" where
  "Write_alphanumeric [] b = Inr b"
| "Write_alphanumeric (c0 # c1 # rest) b =
     bnd (Put b (alphanumericIndex c0 * 45 + alphanumericIndex c1) 11) (Write_alphanumeric rest)"
| "Write_alphanumeric [c0] b = Put b (alphanumericIndex c0) 6"

fun Write_byte :: "string \<Rightarrow> BitBuffer \<Rightarrow> failure + BitBuffer" where
  "Write_byte [] b = Inr b"
| "Write_byte (c # rest) b = bnd (Put b (of_char c) 8) (Write_byte rest)"

definition Write :: "QRData \<Rightarrow> BitBuffer \<Rightarrow> failure + BitBuffer" where
  "Write q b =
     (if mode q = ModeNumeric then Write_numeric (data q) b
      else if mode q = ModeAlphanumeric then Write_alphanumeric (data q) b
      else Write_byte (data q) b)"

subsection \<open>Codeword assembly\<close>

text \<open>
  \<open>if err != nil { log.Printf(...); return nil }\<close>: a returned error ends
  \<open>CreateBytes\<close> with the nil slice; a panic is not caught.
\<close>

definition rsPoly_of :: "int \<Rightarrow> failure + Polynomial" where
  "rsPoly_of ecCount =
     bnd (NewPolynomial [1] 0) (\<lambda>rs0.
       for_loop 0 ecCount
         (\<lambda>i rsPoly. bnd (Gexp i) (\<lambda>g. bnd (NewPolynomial [1, g] 0) (\<lambda>child. Mul rsPoly child)))
         rs0)"

text \<open>
  The body of the loop over the blocks, for the block at \<open>offset\<close>: its data codewords
  \<open>dcdata[r]\<close>, read from the buffer's bytes, and its error correction codewords
  \<open>ecdata[r]\<close>, the remainder of the data polynomial modulo the generator.
\<close>

definition block_codewords :: "BitBuffer \<Rightarrow> int \<Rightarrow> RSBlock \<Rightarrow> failure + (int list \<times> int list)" where
  "block_codewords b offset rsBlock =
     (let dcCount = DataCount rsBlock; ecCount = TotalCount rsBlock - dcCount in
      bnd (make_slice dcCount 0) (\<lambda>dc0.
      bnd (for_loop 0 (len dc0)
             (\<lambda>i dc. bnd (at (buffer b) (i + offset)) (\<lambda>x. upd dc i (255 AND x))) dc0) (\<lambda>dc.
      bnd (rsPoly_of ecCount) (\<lambda>rsPoly.
      bnd (NewPolynomial dc (Len rsPoly - 1)) (\<lambda>rawPoly.
      bnd (Mod rawPoly rsPoly) (\<lambda>modPoly.
      bnd (make_slice (Len rsPoly - 1) 0) (\<lambda>ec0.
      bnd (for_loop 0 (len ec0)
             (\<lambda>i ec. let modIndex = i + (Len modPoly - len ec0) in
                if modIndex \<ge> 0 then bnd (Get modPoly modIndex) (upd ec i) else upd ec i 0) ec0) (\<lambda>ec.
      Inr (dc, ec)))))))))"

text \<open>
  The loop over the blocks.  \<open>dcdata[r]\<close> and \<open>ecdata[r]\<close> are assigned for
  \<open>r = 0, 1, ...\<close> in turn, so the model collects them in order.
\<close>

fun CreateBytes_blocks ::
  "BitBuffer \<Rightarrow> RSBlock list \<Rightarrow> int \<Rightarrow> int \<Rightarrow> int \<Rightarrow> int list list \<Rightarrow> int list list
     \<Rightarrow> failure + (int \<times> int \<times> int list list \<times> int list list)" where
  "CreateBytes_blocks b [] offset maxDcCount maxEcCount dcdata ecdata =
     Inr (maxDcCount, maxEcCount, dcdata, ecdata)"
| "CreateBytes_blocks b (rsBlock # rest) offset maxDcCount maxEcCount dcdata ecdata =
     (let dcCount = DataCount rsBlock; ecCount = TotalCount rsBlock - dcCount in
      bnd (block_codewords b offset rsBlock) (\<lambda>(dc, ec).
        CreateBytes_blocks b rest (offset + dcCount)
          (if maxDcCount < dcCount then dcCount else maxDcCount)
          (if maxEcCount < ecCount then ecCount else maxEcCount)
          (dcdata @ [dc]) (ecdata @ [ec])))"

text \<open>
  One of the two interleaving loops: column \<open>i\<close> of every row that has one, the byte
  written at \<open>data[index]\<close>.
\<close>

definition interleave :: "int \<Rightarrow> int list list \<Rightarrow> int list \<times> int \<Rightarrow> failure + (int list \<times> int)" where
  "interleave maxCount rows st =
     for_loop 0 maxCount
       (\<lambda>i. for_loop 0 (len rows)
          (\<lambda>r (dat, index). bnd (at rows r) (\<lambda>row.
             if i < len row
             then bnd (at row i) (\<lambda>x. bnd (upd dat index (x mod 256)) (\<lambda>dat'. Inr (dat', index + 1)))
             else Inr (dat, index))))
       st"

definition CreateBytes :: "BitBuffer \<Rightarrow> RSBlock list \<Rightarrow> failure + int list" where
  "CreateBytes b rsBlocks =
     (case CreateBytes_blocks b rsBlocks 0 0 0 [] [] of
        Inl (Err e) \<Rightarrow> Inr []
      | Inl (Panic p) \<Rightarrow> Inl (Panic p)
      | Inr (maxDcCount, maxEcCount, dcdata, ecdata) \<Rightarrow>
          bnd (make_slice (sum_list (map TotalCount rsBlocks)) 0) (\<lambda>data0.
          bnd (interleave maxDcCount dcdata (data0, 0)) (\<lambda>st1.
          bnd (interleave maxEcCount ecdata st1) (\<lambda>st2.
          Inr (fst st2)))))"

text \<open>
  \<open>CreateData\<close>.  The terminator loop \<open>for i := 0; i < min(bitLimit-buffer.Len(), 4); i++\<close>
  evaluates its bound again in every round, while the buffer grows.
\<close>

fun put_segments :: "int \<Rightarrow> QRData list \<Rightarrow> BitBuffer \<Rightarrow> failure + BitBuffer" where
  "put_segments version [] b = Inr b"
| "put_segments version (d # rest) b =
     bnd (Put b (mode d) 4) (\<lambda>b1.
     bnd (LengthInBits (mode d) version) (\<lambda>n.
     bnd (Put b1 (len (data d)) n) (\<lambda>b2.
     bnd (Write d b2) (put_segments version rest))))"

function terminator :: "int \<Rightarrow> int \<Rightarrow> BitBuffer \<Rightarrow> failure + BitBuffer" where
  "terminator i bitLimit b =
     (if i < min (bitLimit - BitBuffer_Len b) 4
      then (case PutBit b False of Inl e \<Rightarrow> Inl e | Inr b' \<Rightarrow> terminator (i + 1) bitLimit b')
      else Inr b)"
  by pat_completeness auto
termination
  by (relation "measure (\<lambda>(i, bitLimit, b). nat (4 - i))") auto

declare terminator.simps [simp del]

definition PAD0 :: int where "PAD0 = 236"
definition PAD1 :: int where "PAD1 = 17"

definition CreateData :: "constants \<Rightarrow> int \<Rightarrow> int \<Rightarrow> QRData list \<Rightarrow> failure + int list" where
  "CreateData K version errorCorrection dataList =
     bnd (put_segments version dataList NewBitBuffer) (\<lambda>b0.
     bnd (RSBlocks K version errorCorrection) (\<lambda>rsBlocks.
       let bitLimit = sum_list (map (\<lambda>block. DataCount block * 8) rsBlocks) in
       if BitBuffer_Len b0 > bitLimit
       then Inl (Err (ErrCodeLengthOverflow (BitBuffer_Len b0) bitLimit))
       else
         bnd (terminator 0 bitLimit b0) (\<lambda>b1.
         let delimit = go_mod (BitBuffer_Len b1) 8 in
         bnd (if delimit \<noteq> 0 then for_loop 0 (8 - delimit) (\<lambda>i b. PutBit b False) b1 else Inr b1) (\<lambda>b2.
         let bytesToFill = go_div (bitLimit - BitBuffer_Len b2) 8 in
         bnd (for_loop 0 bytesToFill
                (\<lambda>i b. if go_mod i 2 = 0 then Put b PAD0 8 else Put b PAD1 8) b2) (\<lambda>b3.
         CreateBytes b3 rsBlocks)))))"

subsection \<open>BCH codes of the format and version information\<close>

definition G15 :: int where
  "G15 = push_bit 10 1 OR push_bit 8 1 OR push_bit 5 1 OR push_bit 4 1 OR push_bit 2 1 OR push_bit 1 1 OR push_bit 0 1"

definition G18 :: int where
  "G18 = push_bit 12 1 OR push_bit 11 1 OR push_bit 10 1 OR push_bit 9 1 OR push_bit 8 1 OR push_bit 5 1 OR push_bit 2 1 OR push_bit 0 1"

definition G15_MASK :: int where
  "G15_MASK = push_bit 14 1 OR push_bit 12 1 OR push_bit 10 1 OR push_bit 4 1 OR push_bit 1 1"

text \<open>
  \<open>BCHDigit\<close>: \<open>for data != 0 { digit++; data >>= 1 }\<close>.  On a negative number the
  arithmetic shift never reaches 0 and the loop does not end: the result is \<open>None\<close>.
\<close>

partial_function (option) BCHDigit_loop :: "int \<Rightarrow> int \<Rightarrow> int option" where
  "BCHDigit_loop digit dat =
     (if dat \<noteq> 0 then BCHDigit_loop (digit + 1) (drop_bit 1 dat) else Some digit)"

declare BCHDigit_loop.simps [code]

definition BCHDigit :: "int \<Rightarrow> int option" where
  "BCHDigit dat = BCHDigit_loop 0 dat"

partial_function (option) BCH_loop :: "int \<Rightarrow> int \<Rightarrow> int option" where
  "BCH_loop g d =
     Option.bind (BCHDigit d) (\<lambda>dd.
     Option.bind (BCHDigit g) (\<lambda>dg.
       if dd - dg \<ge> 0 then BCH_loop g (d XOR push_bit (nat (dd - dg)) g) else Some d))"

declare BCH_loop.simps [code]

definition BCHTypeInfo :: "int \<Rightarrow> int option" where
  "BCHTypeInfo dat =
     map_option (\<lambda>d. (push_bit 10 dat OR d) XOR G15_MASK) (BCH_loop G15 (push_bit 10 dat))"

definition BCHTypeNumber :: "int \<Rightarrow> int option" where
  "BCHTypeNumber dat =
     map_option (\<lambda>d. push_bit 12 dat OR d) (BCH_loop G18 (push_bit 12 dat))"

text \<open>A call that never returns is the failure \<open>Diverges\<close> of its caller.\<close>

fun returns :: "'a option \<Rightarrow> failure + 'a" where
  "returns None = Inl (Panic Diverges)"
| "returns (Some x) = Inr x"

definition PatternPositionTable :: "int list list" where
  "PatternPositionTable = [
    [],
    [6, 18],
    [6, 22],
    [6, 26],
    [6, 30],
    [6, 34],
    [6, 22, 38],
    [6, 24, 42],
    [6, 26, 46],
    [6, 28, 50],
    [6, 30, 54],
    [6, 32, 58],
    [6, 34, 62],
    [6, 26, 46, 66],
    [6, 26, 48, 70],
    [6, 26, 50, 74],
    [6, 30, 54, 78],
    [6, 30, 56, 82],
    [6, 30, 58, 86],
    [6, 34, 62, 90],
    [6, 28, 50, 72, 94],
    [6, 26, 50, 74, 98],
    [6, 30, 54, 78, 102],
    [6, 28, 54, 80, 106],
    [6, 32, 58, 84, 110],
    [6, 30, 58, 86, 114],
    [6, 34, 62, 90, 118],
    [6, 26, 50, 74, 98, 122],
    [6, 30, 54, 78, 102, 126],
    [6, 26, 52, 78, 104, 130],
    [6, 30, 56, 82, 108, 134],
    [6, 34, 60, 86, 112, 138],
    [6, 30, 58, 86, 114, 142],
    [6, 34, 62, 90, 118, 146],
    [6, 30, 54, 78, 102, 126, 150],
    [6, 24, 50, 76, 102, 128, 154],
    [6, 28, 54, 80, 106, 132, 158],
    [6, 32, 58, 84, 110, 136, 162],
    [6, 26, 54, 82, 110, 138, 166],
    [6, 30, 58, 86, 114, 142, 170]
  ]"

definition PatternPosition :: "int \<Rightarrow> failure + int list" where
  "PatternPosition version = at PatternPositionTable (version - 1)"

subsection \<open>The eight masks\<close>

definition MaskFunc :: "int \<Rightarrow> failure + (int \<Rightarrow> int \<Rightarrow> bool)" where
  "MaskFunc pattern =
     (if pattern = 0 then Inr (\<lambda>i j. go_mod (i + j) 2 = 0)
      else if pattern = 1 then Inr (\<lambda>i j. go_mod i 2 = 0)
      else if pattern = 2 then Inr (\<lambda>i j. go_mod j 3 = 0)
      else if pattern = 3 then Inr (\<lambda>i j. go_mod (i + j) 3 = 0)
      else if pattern = 4 then Inr (\<lambda>i j. go_mod (go_div i 2 + go_div j 3) 2 = 0)
      else if pattern = 5 then Inr (\<lambda>i j. go_mod (i * j) 2 + go_mod (i * j) 3 = 0)
      else if pattern = 6 then Inr (\<lambda>i j. go_mod (go_mod (i * j) 2 + go_mod (i * j) 3) 2 = 0)
      else if pattern = 7 then Inr (\<lambda>i j. go_mod (go_mod (i * j) 3 + go_mod (i + j) 2) 2 = 0)
      else Inl (Panic BadMaskPattern))"

subsection \<open>Modules and the penalty score\<close>

text \<open>
  A module is a \<open>*bool\<close>: nil, or a pointer to a boolean variable.  The encoder never
  writes through such a pointer: every assignment stores the address of a variable
  declared for that assignment, whose value is final by then.  A pointer is therefore
  modelled by the address of its variable together with the value the variable holds;
  \<open>==\<close> on two pointers compares the addresses, and \<open>*p\<close> on nil panics.
\<close>

datatype ptr = Ptr (addr: int) (deref: bool)

type_synonym cell = "ptr option"
type_synonym ModulesType = "cell list list"

fun ptr_eq :: "cell \<Rightarrow> cell \<Rightarrow> bool" where
  "ptr_eq None None = True"
| "ptr_eq (Some p) (Some q) = (addr p = addr q)"
| "ptr_eq _ _ = False"

fun star :: "cell \<Rightarrow> failure + bool" where
  "star None = Inl (Panic NilDereference)"
| "star (Some p) = Inr (deref p)"

definition incr :: "int list \<Rightarrow> int \<Rightarrow> failure + int list" where
  "incr container n = bnd (at container n) (\<lambda>c. upd container n (c + 1))"

text \<open>
  Rule 1 scans every row and every column with the same loop; \<open>get k\<close> is the \<open>k\<close>-th
  module of the line scanned (\<open>thisRow[col]\<close>, or \<open>modules[row][col]\<close> down a column).
  The comparison \<open>thisRow[col] == previousColor\<close> is between two \<open>*bool\<close>.
\<close>

definition level1_line :: "int \<Rightarrow> (int \<Rightarrow> failure + cell) \<Rightarrow> int list \<Rightarrow> failure + int list" where
  "level1_line modulesCount get container =
     bnd (get 0) (\<lambda>first.
     bnd (for_loop 0 modulesCount
            (\<lambda>k (previousColor, length, container).
               bnd (get k) (\<lambda>c.
                 if ptr_eq c previousColor then Inr (previousColor, length + 1, container)
                 else bnd (if length \<ge> 5 then incr container length else Inr container)
                        (\<lambda>container'. Inr (c, 1, container'))))
            (first, 0, container))
       (\<lambda>(previousColor, length, container).
          if length \<ge> 5 then incr container length else Inr container))"

definition lostPointLevel1 :: "ModulesType \<Rightarrow> int \<Rightarrow> failure + int" where
  "lostPointLevel1 modules modulesCount =
     bnd (make_slice (modulesCount + 1) 0) (\<lambda>container0.
     bnd (for_loop 0 modulesCount
            (\<lambda>row container. bnd (at modules row) (\<lambda>thisRow.
               level1_line modulesCount (at thisRow) container))
            container0) (\<lambda>container1.
     bnd (for_loop 0 modulesCount
            (\<lambda>col container.
               level1_line modulesCount (\<lambda>row. bnd (at modules row) (\<lambda>r. at r col)) container)
            container1) (\<lambda>container2.
     for_loop 5 (modulesCount + 1)
       (\<lambda>eachLength lostPoint. bnd (at container2 eachLength) (\<lambda>c.
          Inr (lostPoint + c * (eachLength - 2))))
       0)))"

text \<open>Rule 2: the inner loop advances \<open>col\<close> itself when the right-hand pair differs.\<close>

function level2_cols :: "int \<Rightarrow> int \<Rightarrow> cell list \<Rightarrow> cell list \<Rightarrow> int \<Rightarrow> failure + int" where
  "level2_cols col modulesCount thisRow nextRow lostPoint =
     (if col < modulesCount - 1 then
        bnd (at thisRow (col + 1)) (\<lambda>topRight.
        bnd (at nextRow (col + 1)) (\<lambda>bottomRight.
          if \<not> ptr_eq topRight bottomRight
          then level2_cols (col + 2) modulesCount thisRow nextRow lostPoint
          else bnd (at thisRow col) (\<lambda>topLeft.
            if \<not> ptr_eq topRight topLeft
            then level2_cols (col + 1) modulesCount thisRow nextRow lostPoint
            else bnd (at nextRow col) (\<lambda>bottomLeft.
              if \<not> ptr_eq topRight bottomLeft
              then level2_cols (col + 1) modulesCount thisRow nextRow lostPoint
              else level2_cols (col + 1) modulesCount thisRow nextRow (lostPoint + 3)))))
      else Inr lostPoint)"
  by pat_completeness auto
termination
  by (relation "measure (\<lambda>(col, modulesCount, thisRow, nextRow, lostPoint). nat (modulesCount - col))") auto

declare level2_cols.simps [simp del]

definition lostPointLevel2 :: "ModulesType \<Rightarrow> int \<Rightarrow> failure + int" where
  "lostPointLevel2 modules modulesCount =
     for_loop 0 (modulesCount - 1)
       (\<lambda>row lostPoint. bnd (at modules row) (\<lambda>thisRow. bnd (at modules (row + 1)) (\<lambda>nextRow.
          level2_cols 0 modulesCount thisRow nextRow lostPoint)))
       0"

text \<open>
  Rule 3 dereferences the modules of an 11-module window in the order of its
  short-circuit conjunction; \<open>window get want\<close> is the conjunction of the tests
  \<open>*get(k) == v\<close> for the pairs \<open>(k, v)\<close> of \<open>want\<close>, left to right.
\<close>

fun window :: "(int \<Rightarrow> failure + cell) \<Rightarrow> (int \<times> bool) list \<Rightarrow> failure + bool" where
  "window get [] = Inr True"
| "window get ((k, v) # rest) =
     bnd (get k) (\<lambda>c. bnd (star c) (\<lambda>dark. if dark = v then window get rest else Inr False))"

definition level3_match :: "(int \<Rightarrow> failure + cell) \<Rightarrow> failure + bool" where
  "level3_match get =
     bnd (window get [(1, False), (4, True), (5, False), (6, True), (9, False)]) (\<lambda>common.
       if \<not> common then Inr False
       else bnd (window get [(0, True), (2, True), (3, True), (7, False), (8, False), (10, False)]) (\<lambda>left.
         if left then Inr True
         else window get [(0, False), (2, False), (3, False), (7, True), (8, True), (10, True)]))"

function level3_line :: "int \<Rightarrow> int \<Rightarrow> (int \<Rightarrow> failure + cell) \<Rightarrow> int \<Rightarrow> failure + int" where
  "level3_line k modulesCount get lostPoint =
     (if k < modulesCount - 10 then
        bnd (level3_match (\<lambda>d. get (k + d))) (\<lambda>hit.
        bnd (get (k + 10)) (\<lambda>c. bnd (star c) (\<lambda>dark.
          level3_line (if dark then k + 2 else k + 1) modulesCount get
            (if hit then lostPoint + 40 else lostPoint))))
      else Inr lostPoint)"
  by pat_completeness auto
termination
  by (relation "measure (\<lambda>(k, modulesCount, get, lostPoint). nat (modulesCount - k))") auto

declare level3_line.simps [simp del]

definition lostPointLevel3 :: "ModulesType \<Rightarrow> int \<Rightarrow> failure + int" where
  "lostPointLevel3 modules modulesCount =
     bnd (for_loop 0 modulesCount
            (\<lambda>row lostPoint. bnd (at modules row) (\<lambda>thisRow.
               level3_line 0 modulesCount (at thisRow) lostPoint))
            0) (\<lambda>lostPoint.
     for_loop 0 modulesCount
       (\<lambda>col. level3_line 0 modulesCount (\<lambda>row. bnd (at modules row) (\<lambda>r. at r col)))
       lostPoint)"

text \<open>
  Rule 4 counts the dark modules, dereferencing every module.  The score is computed
  in \<open>float64\<close>: \<open>int(math.Abs(percent*100-50) / 5) * 10\<close>.  The model computes the same
  quotient exactly; the rounding of \<open>float64\<close> is not modelled.
\<close>

fun count_dark :: "cell list \<Rightarrow> int \<Rightarrow> failure + int" where
  "count_dark [] darkCount = Inr darkCount"
| "count_dark (module # rest) darkCount =
     bnd (star module) (\<lambda>dark. count_dark rest (if dark then darkCount + 1 else darkCount))"

fun count_dark_rows :: "ModulesType \<Rightarrow> int \<Rightarrow> failure + int" where
  "count_dark_rows [] darkCount = Inr darkCount"
| "count_dark_rows (row # rest) darkCount = bnd (count_dark row darkCount) (count_dark_rows rest)"

definition lostPointLevel4 :: "ModulesType \<Rightarrow> int \<Rightarrow> failure + int" where
  "lostPointLevel4 modules modulesCount =
     bnd (count_dark_rows modules 0) (\<lambda>darkCount.
       Inr ((\<bar>darkCount * 100 - 50 * (modulesCount * modulesCount)\<bar>
              div (5 * (modulesCount * modulesCount))) * 10))"

definition LostPoint :: "ModulesType \<Rightarrow> failure + int" where
  "LostPoint modules =
     (let modulesCount = len modules in
      bnd (lostPointLevel1 modules modulesCount) (\<lambda>l1.
      bnd (lostPointLevel2 modules modulesCount) (\<lambda>l2.
      bnd (lostPointLevel3 modules modulesCount) (\<lambda>l3.
      bnd (lostPointLevel4 modules modulesCount) (\<lambda>l4.
      Inr (0 + l1 + l2 + l3 + l4))))))"

subsection \<open>The chunker\<close>

text \<open>
  \<open>OptimalDataChunks\<close> compiles one numeric and one alphanumeric pattern, of two
  shapes: \<open>^C+$\<close> (the whole input, not empty, in the class \<open>C\<close>) when the input is no
  longer than \<open>minimum\<close>, and \<open>C{minimum,}\<close> (a run of at least \<open>minimum\<close> characters of
  \<open>C\<close>) otherwise.  The classes hold ASCII characters only, so matching the bytes is
  matching the runes.
\<close>

datatype regexp = Whole "char \<Rightarrow> bool" | Run "char \<Rightarrow> bool" nat

definition isDigitChar :: "char \<Rightarrow> bool" where
  "isDigitChar c \<longleftrightarrow> (48 :: nat) \<le> of_char c \<and> of_char c \<le> (57 :: nat)"

text \<open>
  The alphanumeric class is \<open>"[" + regexp.QuoteMeta(AlphanumericChars) + "]"\<close>.
  \<open>QuoteMeta\<close> escapes \<open>$\<close>, \<open>*\<close>, \<open>+\<close> and \<open>.\<close> but not \<open>-\<close>, so the class reads
  \<open>[0-9A-Z \$%\*\+-\./:]\<close> character by character, and in it \<open>\+-\.\<close> is the range from
  \<open>+\<close> to \<open>.\<close>: the comma belongs to the class.
\<close>

definition isAlphaClass :: "char \<Rightarrow> bool" where
  "isAlphaClass c \<longleftrightarrow> c \<in> set AlphanumericChars \<or> c = CHR '',''"

text \<open>
  \<open>FindIndex\<close>: the leftmost match, as long as it can be, as the pair of its start and
  end offsets; \<open>None\<close> is nil.
\<close>

function find_run :: "(char \<Rightarrow> bool) \<Rightarrow> nat \<Rightarrow> int \<Rightarrow> string \<Rightarrow> (int \<times> int) option" where
  "find_run P n pos xs =
     (let run = takeWhile P xs in
      if length run \<ge> n then Some (pos, pos + len run)
      else if length run = length xs then None
      else find_run P n (pos + len run + 1) (drop (length run + 1) xs))"
  by pat_completeness auto
termination
proof (relation "measure (\<lambda>(P, n, pos, xs). length xs)")
  show "wf (measure (\<lambda>(P, n, pos, xs). length xs))" by simp
next
  fix P :: "char \<Rightarrow> bool" and n :: nat and pos :: int and xs :: string and x
  assume x: "x = takeWhile P xs" and short: "\<not> n \<le> length x"
    and more: "length x \<noteq> length xs"
  have "length (takeWhile P xs) \<le> length xs" by (rule length_takeWhile_le)
  moreover have "xs \<noteq> []" using more x by auto
  ultimately show "((P, n, pos + len x + 1, drop (length x + 1) xs), (P, n, pos, xs))
      \<in> measure (\<lambda>(P, n, pos, xs). length xs)"
    by (cases xs) auto
qed

declare find_run.simps [simp del]

fun FindIndex :: "regexp \<Rightarrow> string \<Rightarrow> (int \<times> int) option" where
  "FindIndex (Whole P) dat = (if dat \<noteq> [] \<and> list_all P dat then Some (0, len dat) else None)"
| "FindIndex (Run P n) dat = find_run P n 0 dat"

text \<open>The slices \<open>data[:start]\<close>, \<open>data[start:end]\<close> and \<open>data[end:]\<close>.\<close>

definition slice :: "string \<Rightarrow> int \<Rightarrow> int \<Rightarrow> string" where
  "slice dat start end = take (nat (end - start)) (drop (nat start) dat)"

text \<open>
  The first loop of \<open>optimalSplit\<close>, \<open>for len(data) > 0 { ... }\<close>, returns what it has
  appended to \<open>result\<close> together with the rest of \<open>data\<close>.  A pattern that matches the
  empty string at offset 0 would keep the loop from ending.
\<close>

partial_function (option) optimalSplit_num ::
  "regexp \<Rightarrow> string \<Rightarrow> QRData list \<Rightarrow> (QRData list \<times> string) option" where
  "optimalSplit_num numPattern dat result =
     (if len dat > 0 then
        (case FindIndex numPattern dat of
           None \<Rightarrow> Some (result, dat)
         | Some (start, end) \<Rightarrow>
             optimalSplit_num numPattern (slice dat end (len dat))
               ((if start > 0 then result @ [QRData (slice dat 0 start) ModeByte] else result)
                  @ [QRData (slice dat start end) ModeNumeric]))
      else Some (result, dat))"

declare optimalSplit_num.simps [code]

text \<open>
  After the loop, one alphanumeric match is looked for in what is left.  The statement
  \<open>data = data[end:]\<close> that follows the match is the last use of \<open>data\<close>: the function
  returns \<open>result\<close>.
\<close>

definition optimalSplit :: "string \<Rightarrow> regexp \<Rightarrow> regexp \<Rightarrow> QRData list option" where
  "optimalSplit dat numPattern alphaPattern =
     Option.bind (optimalSplit_num numPattern dat []) (\<lambda>(result, dat).
       if len dat > 0 then
         (case FindIndex alphaPattern dat of
            Some (start, end) \<Rightarrow>
              Some ((if start > 0 then result @ [QRData (slice dat 0 start) ModeByte] else result)
                     @ [QRData (slice dat start end) ModeAlphanumeric])
          | None \<Rightarrow> Some (result @ [QRData dat ModeByte]))
       else Some result)"

text \<open>
  \<open>regexp.MustCompile\<close> panics on a repeat count above 1000.  \<open>optimalSplit\<close> never
  returns an error.
\<close>

definition OptimalDataChunks :: "string \<Rightarrow> int \<Rightarrow> failure + QRData list" where
  "OptimalDataChunks dat minimum0 =
     (let minimum = (if minimum0 \<le> 0 then 4 else minimum0) in
      if len dat \<le> minimum
      then returns (optimalSplit dat (Whole isDigitChar) (Whole isAlphaClass))
      else if minimum > 1000 then Inl (Panic RegexpRepeat)
      else returns (optimalSplit dat (Run isDigitChar (nat minimum)) (Run isAlphaClass (nat minimum))))"

section \<open>qr: drawing on the modules\<close>

text \<open>
  The methods that draw on the modules read \<open>q.modulesCount\<close> (a parameter below) and
  assign modules.  They work on the modules and the next address, and return them as
  they are when a panic stops them.
\<close>

type_synonym mstate = "ModulesType \<times> int"

fun upd2_nat :: "'a list list \<Rightarrow> nat \<Rightarrow> nat \<Rightarrow> 'a \<Rightarrow> failure + 'a list list" where
  "upd2_nat [] r c v = Inl (Panic IndexOutOfRange)"
| "upd2_nat (x # xs) 0 c v = bnd (upd_nat x c v) (\<lambda>x'. Inr (x' # xs))"
| "upd2_nat (x # xs) (Suc r) c v = cons_ok x (upd2_nat xs r c v)"

definition upd2 :: "'a list list \<Rightarrow> int \<Rightarrow> int \<Rightarrow> 'a \<Rightarrow> failure + 'a list list" where
  "upd2 ms row col v =
     (if row < 0 \<or> col < 0 then Inl (Panic IndexOutOfRange) else upd2_nat ms (nat row) (nat col) v)"

definition at2 :: "'a list list \<Rightarrow> int \<Rightarrow> int \<Rightarrow> failure + 'a" where
  "at2 ms row col = bnd (at ms row) (\<lambda>r. at r col)"

text \<open>\<open>val := ...; q.modules[row][col] = &val\<close>.\<close>

definition set_module :: "int \<Rightarrow> int \<Rightarrow> bool \<Rightarrow> mstate \<Rightarrow> failure option \<times> mstate" where
  "set_module row col val st =
     (case upd2 (fst st) row col (Some (Ptr (snd st) val)) of
        Inl e \<Rightarrow> (Some e, st)
      | Inr ms' \<Rightarrow> (None, (ms', snd st + 1)))"

definition skip :: "'s \<Rightarrow> failure option \<times> 's" where
  "skip s = (None, s)"

definition fail :: "failure \<Rightarrow> 's \<Rightarrow> failure option \<times> 's" where
  "fail e s = (Some e, s)"

definition andThen ::
  "('s \<Rightarrow> failure option \<times> 's) \<Rightarrow> ('s \<Rightarrow> failure option \<times> 's) \<Rightarrow> 's \<Rightarrow> failure option \<times> 's" where
  "andThen m1 m2 s = (case m1 s of (None, s') \<Rightarrow> m2 s' | (Some e, s') \<Rightarrow> (Some e, s'))"

function for_loopS ::
  "int \<Rightarrow> int \<Rightarrow> (int \<Rightarrow> 's \<Rightarrow> failure option \<times> 's) \<Rightarrow> 's \<Rightarrow> failure option \<times> 's" where
  "for_loopS i n body s =
     (if i < n then
        (case body i s of (None, s') \<Rightarrow> for_loopS (i + 1) n body s' | (Some e, s') \<Rightarrow> (Some e, s'))
      else (None, s))"
  by pat_completeness auto
termination
  by (relation "measure (\<lambda>(i, n, body, s). nat (n - i))") auto

declare for_loopS.simps [simp del]

subsection \<open>Function patterns\<close>

definition isOutOfBounds :: "int \<Rightarrow> int \<Rightarrow> bool" where
  "isOutOfBounds modulesCount index \<longleftrightarrow> index \<le> -1 \<or> modulesCount \<le> index"

definition setModuleValue :: "int \<Rightarrow> int \<Rightarrow> int \<Rightarrow> int \<Rightarrow> mstate \<Rightarrow> failure option \<times> mstate" where
  "setModuleValue row col r c =
     (if (0 \<le> r \<and> r \<le> 6 \<and> (c = 0 \<or> c = 6)) \<or>
         (0 \<le> c \<and> c \<le> 6 \<and> (r = 0 \<or> r = 6)) \<or>
         (2 \<le> r \<and> r \<le> 4 \<and> 2 \<le> c \<and> c \<le> 4)
      then set_module row col True
      else set_module row col False)"

definition SetupPositionProbePattern :: "int \<Rightarrow> int \<Rightarrow> int \<Rightarrow> mstate \<Rightarrow> failure option \<times> mstate" where
  "SetupPositionProbePattern modulesCount row col =
     for_loopS (-1) 8 (\<lambda>r.
       if isOutOfBounds modulesCount (row + r) then skip
       else for_loopS (-1) 8 (\<lambda>c.
         if isOutOfBounds modulesCount (col + c) then skip
         else setModuleValue (row + r) (col + c) r c))"

definition setPositionAdjustPatternValue :: "int \<Rightarrow> int \<Rightarrow> int \<Rightarrow> int \<Rightarrow> mstate \<Rightarrow> failure option \<times> mstate" where
  "setPositionAdjustPatternValue row col r c =
     (if r = -2 \<or> r = 2 \<or> c = -2 \<or> c = 2 \<or> (r = 0 \<and> c = 0)
      then set_module (row + r) (col + c) True
      else set_module (row + r) (col + c) False)"

definition setPositionAdjustPattern :: "int \<Rightarrow> int \<Rightarrow> mstate \<Rightarrow> failure option \<times> mstate" where
  "setPositionAdjustPattern row col =
     for_loopS (-2) 3 (\<lambda>r. for_loopS (-2) 3 (\<lambda>c. setPositionAdjustPatternValue row col r c))"

text \<open>\<open>for i := range pos\<close>: the loop over the elements of a slice.\<close>

fun for_each :: "'a list \<Rightarrow> ('a \<Rightarrow> 's \<Rightarrow> failure option \<times> 's) \<Rightarrow> 's \<Rightarrow> failure option \<times> 's" where
  "for_each [] body s = (None, s)"
| "for_each (x # xs) body s =
     (case body x s of (None, s') \<Rightarrow> for_each xs body s' | (Some e, s') \<Rightarrow> (Some e, s'))"

definition SetupPositionAdjustPattern :: "int list \<Rightarrow> mstate \<Rightarrow> failure option \<times> mstate" where
  "SetupPositionAdjustPattern pos =
     for_each pos (\<lambda>row. for_each pos (\<lambda>col st.
       case at2 (fst st) row col of
         Inl e \<Rightarrow> (Some e, st)
       | Inr m \<Rightarrow> if m \<noteq> None then (None, st) else setPositionAdjustPattern row col st))"

definition SetupTimingPattern :: "int \<Rightarrow> mstate \<Rightarrow> failure option \<times> mstate" where
  "SetupTimingPattern modulesCount =
     andThen
       (for_loopS 8 (modulesCount - 8) (\<lambda>r st.
          case at2 (fst st) r 6 of
            Inl e \<Rightarrow> (Some e, st)
          | Inr m \<Rightarrow> if m \<noteq> None then (None, st) else set_module r 6 (go_mod r 2 = 0) st))
       (for_loopS 8 (modulesCount - 8) (\<lambda>c st.
          case at2 (fst st) 6 c of
            Inl e \<Rightarrow> (Some e, st)
          | Inr m \<Rightarrow> if m \<noteq> None then (None, st) else set_module 6 c (go_mod c 2 = 0) st))"

subsection \<open>Format and version information\<close>

definition bit_of :: "int \<Rightarrow> int \<Rightarrow> bool" where
  "bit_of bits i \<longleftrightarrow> (drop_bit (nat i) bits) AND 1 = 1"

text \<open>\<open>data := (q.errorCorrection << 3) | maskPattern; bits := utils.BCHTypeInfo(data)\<close>.\<close>

definition TypeInfo_bits :: "int \<Rightarrow> int \<Rightarrow> failure + int" where
  "TypeInfo_bits errorCorrection maskPattern =
     returns (BCHTypeInfo (push_bit 3 errorCorrection OR maskPattern))"

definition SetupTypeInfo :: "int \<Rightarrow> int \<Rightarrow> bool \<Rightarrow> int \<Rightarrow> mstate \<Rightarrow> failure option \<times> mstate" where
  "SetupTypeInfo modulesCount errorCorrection test maskPattern st =
     (case TypeInfo_bits errorCorrection maskPattern of
        Inl e \<Rightarrow> (Some e, st)
      | Inr bits \<Rightarrow>
         andThen
           (for_loopS 0 15 (\<lambda>i.
              let md = (\<not> test \<and> bit_of bits i) in
              if i < 6 then set_module i 8 md
              else if i < 8 then set_module (i + 1) 8 md
              else set_module (modulesCount - 15 + i) 8 md))
        (andThen
           (for_loopS 0 15 (\<lambda>i.
              let md = (\<not> test \<and> bit_of bits i) in
              if i < 8 then set_module 8 (modulesCount - i - 1) md
              else if i < 9 then set_module 8 (15 - i - 1 + 1) md
              else set_module 8 (15 - i - 1) md))
           (set_module (modulesCount - 8) 8 (\<not> test))) st)"

definition SetupTypeNumber :: "int \<Rightarrow> int \<Rightarrow> bool \<Rightarrow> mstate \<Rightarrow> failure option \<times> mstate" where
  "SetupTypeNumber modulesCount version test st =
     (case returns (BCHTypeNumber version) of
        Inl e \<Rightarrow> (Some e, st)
      | Inr bits \<Rightarrow>
         andThen
           (for_loopS 0 18 (\<lambda>i.
              set_module (go_div i 3) (go_mod i 3 + modulesCount - 8 - 3) (\<not> test \<and> bit_of bits i)))
           (for_loopS 0 18 (\<lambda>i.
              set_module (go_mod i 3 + modulesCount - 8 - 3) (go_div i 3) (\<not> test \<and> bit_of bits i)))
           st)"

subsection \<open>Data mapping\<close>

text \<open>
  The cursor of \<open>MapData\<close>: \<open>row\<close>, the direction \<open>inc\<close> (which is \<open>-1\<close> or \<open>1\<close>, here
  the flag \<open>up\<close> for \<open>-1\<close>), \<open>bitIndex\<close> and \<open>byteIndex\<close>.
\<close>

datatype cursor = Cursor (c_row: int) (c_up: bool) (c_bitIndex: int) (c_byteIndex: int)

text \<open>\<open>if maskFunc(row, c) { dark = !dark }\<close>.\<close>

definition apply_mask :: "(int \<Rightarrow> int \<Rightarrow> bool) \<Rightarrow> int \<Rightarrow> int \<Rightarrow> bool \<Rightarrow> bool" where
  "apply_mask maskFunc i j dark = (if maskFunc i j then \<not> dark else dark)"

text \<open>The body of \<open>for _, c := range colRange\<close>, at one module.\<close>

definition MapData_cell ::
  "int list \<Rightarrow> (int \<Rightarrow> int \<Rightarrow> bool) \<Rightarrow> int \<Rightarrow> cursor \<times> mstate \<Rightarrow> failure option \<times> cursor \<times> mstate" where
  "MapData_cell dat maskFunc c cs =
     (let cur = fst cs; st = snd cs; row = c_row cur in
      case at2 (fst st) row c of
        Inl e \<Rightarrow> (Some e, cs)
      | Inr m \<Rightarrow>
          if m = None then
            (case (if c_byteIndex cur < len dat
                   then bnd (at dat (c_byteIndex cur)) (\<lambda>byte. Inr (bit_of byte (c_bitIndex cur)))
                   else Inr False) of
               Inl e \<Rightarrow> (Some e, cs)
             | Inr dark0 \<Rightarrow>
                 (case set_module row c (apply_mask maskFunc row c dark0) st of
                    (Some e, st') \<Rightarrow> (Some e, (cur, st'))
                  | (None, st') \<Rightarrow>
                      (None,
                       (if c_bitIndex cur - 1 = -1
                        then Cursor row (c_up cur) 7 (c_byteIndex cur + 1)
                        else Cursor row (c_up cur) (c_bitIndex cur - 1) (c_byteIndex cur)),
                       st')))
          else (None, cs))"

lemma MapData_cell_row:
  "MapData_cell dat maskFunc c cs = (r, cs') \<Longrightarrow> c_row (fst cs') = c_row (fst cs) \<and> c_up (fst cs') = c_up (fst cs)"
  by (auto simp: MapData_cell_def Let_def split: sum.splits if_splits prod.splits option.splits)

lemma MapData_pair_row:
  "(r, cs') = andThen (MapData_cell dat maskFunc c) (MapData_cell dat maskFunc c') cs \<Longrightarrow>
     c_row (fst cs') = c_row (fst cs) \<and> c_up (fst cs') = c_up (fst cs)"
proof -
  assume a: "(r, cs') = andThen (MapData_cell dat maskFunc c) (MapData_cell dat maskFunc c') cs"
  obtain r1 cs1 where 1: "MapData_cell dat maskFunc c cs = (r1, cs1)"
    by (cases "MapData_cell dat maskFunc c cs") auto
  note k1 = MapData_cell_row[OF 1]
  show ?thesis
  proof (cases r1)
    case None
    with a 1 have "MapData_cell dat maskFunc c' cs1 = (r, cs')"
      by (simp add: andThen_def)
    from MapData_cell_row[OF this] k1 show ?thesis by simp
  next
    case (Some e)
    with a 1 have "cs' = cs1" by (simp add: andThen_def)
    with k1 show ?thesis by simp
  qed
qed

text \<open>
  The inner \<open>for { ... }\<close>: both modules of the row, then \<open>row += inc\<close>; leaving the
  matrix turns the direction round and ends the loop.
\<close>

function MapData_rows ::
  "int \<Rightarrow> int list \<Rightarrow> (int \<Rightarrow> int \<Rightarrow> bool) \<Rightarrow> int \<Rightarrow> cursor \<times> mstate \<Rightarrow> failure option \<times> cursor \<times> mstate" where
  "MapData_rows modulesCount dat maskFunc col cs =
     (case andThen (MapData_cell dat maskFunc col) (MapData_cell dat maskFunc (col - 1)) cs of
        (Some e, cs') \<Rightarrow> (Some e, cs')
      | (None, (Cursor row up bitIndex byteIndex, st)) \<Rightarrow>
          (let row' = row + (if up then -1 else 1) in
           if row' < 0 \<or> row' \<ge> modulesCount
           then (None, (Cursor row (\<not> up) bitIndex byteIndex, st))
           else MapData_rows modulesCount dat maskFunc col (Cursor row' up bitIndex byteIndex, st)))"
  by pat_completeness auto

termination
  apply (relation "measure (\<lambda>(modulesCount, dat, maskFunc, col, cs).
         nat (if c_up (fst cs) then c_row (fst cs) + 1 else modulesCount - c_row (fst cs)))")
   apply simp
  apply (frule MapData_pair_row)
  apply auto
  done

declare MapData_rows.simps [simp del]

text \<open>
  The outer loop \<open>for col := q.modulesCount - 1; col > 0; col -= 2\<close>, whose body
  starts with \<open>if col <= 6 { col-- }\<close>: the decrement is of the loop variable itself.
\<close>

function MapData_cols ::
  "int \<Rightarrow> int list \<Rightarrow> (int \<Rightarrow> int \<Rightarrow> bool) \<Rightarrow> int \<Rightarrow> cursor \<times> mstate \<Rightarrow> failure option \<times> cursor \<times> mstate" where
  "MapData_cols modulesCount dat maskFunc col cs =
     (if col > 0 then
        (let col' = (if col \<le> 6 then col - 1 else col) in
         case MapData_rows modulesCount dat maskFunc col' cs of
           (Some e, cs') \<Rightarrow> (Some e, cs')
         | (None, cs') \<Rightarrow> MapData_cols modulesCount dat maskFunc (col' - 2) cs')
      else (None, cs))"
  by pat_completeness auto
termination
  by (relation "measure (\<lambda>(modulesCount, dat, maskFunc, col, cs). nat col)") auto

declare MapData_cols.simps [simp del]

definition MapData :: "int \<Rightarrow> int list \<Rightarrow> int \<Rightarrow> mstate \<Rightarrow> failure option \<times> mstate" where
  "MapData modulesCount dat maskPattern st =
     (case MaskFunc maskPattern of
        Inl e \<Rightarrow> (Some e, st)
      | Inr maskFunc \<Rightarrow>
          (case MapData_cols modulesCount dat maskFunc (modulesCount - 1)
                  (Cursor (modulesCount - 1) True 7 0, st) of
             (r, (cur, st')) \<Rightarrow> (r, st')))"

section \<open>qr: the symbol\<close>

text \<open>
  \<open>BIT_LIMIT_TABLE[errorCorrection][version]\<close>: the data bits of the blocks of a version
  at a level, \<open>8 * dataCount(block)\<close> summed over \<open>base.RSBlocks(version, errorCorrection)\<close>.
\<close>

definition dataCount :: "RSBlock \<Rightarrow> int" where
  "dataCount block = DataCount block"

definition BIT_LIMIT_TABLE :: "constants \<Rightarrow> int \<Rightarrow> int \<Rightarrow> failure + int" where
  "BIT_LIMIT_TABLE K errorCorrection version =
     bnd (RSBlocks K version errorCorrection) (\<lambda>rsBlocks.
       Inr (sum_list (map (\<lambda>block. 8 * dataCount block) rsBlocks)))"

record QRCode =
  modules :: ModulesType
  modulesCount :: int
  version :: int
  errorCorrection :: int
  BoxSize :: int
  border :: int
  maskPattern :: int
  DataList :: "QRData list"
  dataCache :: "int list option"

text \<open>
  Beside the symbol, a build reads and writes the package variable
  \<open>precomputedQRBlanks\<close> (a map from the version to the modules of its function
  patterns) and declares boolean variables, whose addresses it stores in the modules;
  \<open>fresh\<close> is the address of the next variable.
\<close>

record world =
  qr :: QRCode
  precomputedQRBlanks :: "int \<rightharpoonup> ModulesType"
  fresh :: int


subsection \<open>Version and best fit\<close>

lemma bnd_cong [fundef_cong]:
  "m = m' \<Longrightarrow> (\<And>x. m' = Inr x \<Longrightarrow> f x = f' x) \<Longrightarrow> bnd m f = bnd m' f'"
  by (cases m') auto

text \<open>The loop of \<open>BestFit\<close> that writes every segment into the trial buffer.\<close>

fun BestFit_segments :: "(int \<times> int) list \<Rightarrow> QRData list \<Rightarrow> BitBuffer \<Rightarrow> failure + BitBuffer" where
  "BestFit_segments modeSizes [] b = Inr b"
| "BestFit_segments modeSizes (d # rest) b =
     bnd (Put b (GetMode d) 4) (\<lambda>b1.
     bnd (Put b1 (QRData_Len d) (lookup0 modeSizes (GetMode d))) (\<lambda>b2.
     bnd (Write d b2) (BestFit_segments modeSizes rest)))"

text \<open>
  \<open>Version\<close> calls \<open>BestFit\<close> when the version is 0, and \<open>BestFit\<close> calls \<open>Version\<close>.
  Neither assigns a field of the symbol (the bisection that would have chosen the
  version is commented out in the source), so both are functions of the symbol.
\<close>

function (domintros) BestFit :: "QRCode \<Rightarrow> int \<Rightarrow> failure + int"
  and Version :: "QRCode \<Rightarrow> failure + int" where
  "BestFit q start =
     (if \<not> CheckVersion start then Inl (Panic (InvalidVersion start))
      else
        bnd (BestFit_segments (ModeSizeVersion start) (DataList q) NewBitBuffer) (\<lambda>buffer.
        bnd (Version q) (\<lambda>v.
          if v = 41 then Inl (Panic DataOverflow)
          else bnd (Version q) (\<lambda>v'.
            if ModeSizeVersion start \<noteq> ModeSizeVersion v'
            then bnd (Version q) (\<lambda>v''. bnd (BestFit q v'') (\<lambda>u. Version q))
            else Version q))))"
| "Version q =
     (if version q = 0 then bnd (BestFit q (version q)) (\<lambda>u. Inr (version q))
      else Inr (version q))"
  by pat_completeness auto
termination
proof -
  have V: "\<And>q x. Version q = Inr x \<Longrightarrow> BestFit_Version_dom (Inr q) \<Longrightarrow> x = version q"
    by (auto simp: Version.psimps bnd_Inr_iff split: if_splits)
  show ?thesis
    apply (relation "measure (\<lambda>x. case x of
              Inl (q, start) \<Rightarrow> (if \<not> CheckVersion start then 0
                                 else if ModeSizeVersion start = ModeSizeVersion (version q) then 2 else 3)
            | Inr q \<Rightarrow> 1)")
          apply simp_all
     apply (auto dest!: V simp: CheckVersion_def)
    done
qed

declare BestFit.simps [simp del] Version.simps [simp del]

subsection \<open>Building the matrix\<close>

definition on_modules :: "(mstate \<Rightarrow> failure option \<times> mstate) \<Rightarrow> world \<Rightarrow> failure option \<times> world" where
  "on_modules f w =
     (case f (modules (qr w), fresh w) of
        (r, (ms, nx)) \<Rightarrow> (r, w\<lparr>qr := (qr w)\<lparr>modules := ms\<rparr>, fresh := nx\<rparr>))"

text \<open>\<open>Copy2DArray\<close> makes new rows that hold the same pointers.\<close>

definition Copy2DArray :: "ModulesType \<Rightarrow> ModulesType" where
  "Copy2DArray src = map (\<lambda>row. row) src"

text \<open>
  The two branches of \<open>MakeImpl\<close> that provide the modules of the function patterns:
  a copy of the cached blank of this version, or a new matrix of nil modules, the three
  finder patterns, the alignment patterns and the timing patterns, and a copy of the
  result stored in the cache.
\<close>

definition blank_modules :: "int \<Rightarrow> int \<Rightarrow> world \<Rightarrow> failure option \<times> world" where
  "blank_modules v n w =
     (case precomputedQRBlanks w v of
        Some precomputedModules \<Rightarrow>
          (None, w\<lparr>qr := (qr w)\<lparr>modules := Copy2DArray precomputedModules\<rparr>\<rparr>)
      | None \<Rightarrow>
          (case bnd (make_slice n None) (\<lambda>row. make_slice n row) of
             Inl e \<Rightarrow> (Some e, w)
           | Inr ms \<Rightarrow>
               andThen (on_modules (SetupPositionProbePattern n 0 0))
              (andThen (on_modules (SetupPositionProbePattern n (n - 7) 0))
              (andThen (on_modules (SetupPositionProbePattern n 0 (n - 7)))
              (andThen (\<lambda>w. case PatternPosition v of
                               Inl e \<Rightarrow> (Some e, w)
                             | Inr pos \<Rightarrow> on_modules (SetupPositionAdjustPattern pos) w)
              (andThen (on_modules (SetupTimingPattern n))
                 (\<lambda>w. (None, w\<lparr>precomputedQRBlanks :=
                                   (precomputedQRBlanks w)(v \<mapsto> Copy2DArray (modules (qr w)))\<rparr>))))))
                 (w\<lparr>qr := (qr w)\<lparr>modules := ms\<rparr>\<rparr>)))"

text \<open>
  \<open>if q.dataCache == nil { ... }\<close>: the codewords are created once; an error of
  \<open>CreateData\<close> is raised as a panic.
\<close>

definition fill_dataCache :: "constants \<Rightarrow> int \<Rightarrow> world \<Rightarrow> failure option \<times> world" where
  "fill_dataCache K v w =
     (case dataCache (qr w) of
        Some cached \<Rightarrow> (None, w)
      | None \<Rightarrow>
          (case CreateData K v (errorCorrection (qr w)) (DataList (qr w)) of
             Inl (Err err) \<Rightarrow> (Some (Panic (PanicErr err)), w)
           | Inl (Panic p) \<Rightarrow> (Some (Panic p), w)
           | Inr bytes \<Rightarrow> (None, w\<lparr>qr := (qr w)\<lparr>dataCache := Some bytes\<rparr>\<rparr>)))"

definition map_dataCache :: "int \<Rightarrow> int \<Rightarrow> world \<Rightarrow> failure option \<times> world" where
  "map_dataCache n mp w =
     (case dataCache (qr w) of
        None \<Rightarrow> on_modules (MapData n [] mp) w
      | Some cached \<Rightarrow> on_modules (MapData n (map (\<lambda>b. b mod 256) cached) mp) w)"

text \<open>
  \<open>MakeImpl\<close>.  \<open>q.Version()\<close> is called several times; it does not change the symbol
  and returns the same value every time, which is bound once here.
\<close>

definition MakeImpl :: "constants \<Rightarrow> bool \<Rightarrow> int \<Rightarrow> world \<Rightarrow> failure option \<times> world" where
  "MakeImpl K test mp w =
     (case Version (qr w) of
        Inl e \<Rightarrow> (Some e, w)
      | Inr v \<Rightarrow>
          (let n = v * 4 + 17 in
           andThen (blank_modules v n)
          (andThen (\<lambda>w. on_modules (SetupTypeInfo n (errorCorrection (qr w)) test mp) w)
          (andThen (\<lambda>w. if v \<ge> 7 then on_modules (SetupTypeNumber n (version (qr w)) test) w
                         else (None, w))
          (andThen (fill_dataCache K v)
                   (map_dataCache n mp))))
             (w\<lparr>qr := (qr w)\<lparr>modulesCount := n\<rparr>\<rparr>)))"

text \<open>
  \<open>BestMaskPattern\<close>: every pattern from 0 to 7 is built in test mode and scored; a
  pattern replaces the best one only when its score is strictly lower.
\<close>

definition BestMaskPattern :: "constants \<Rightarrow> world \<Rightarrow> (failure + int) \<times> world" where
  "BestMaskPattern K w =
     (case for_loopS 0 8
             (\<lambda>pattern (minLostPoint, bestPattern, w).
                case MakeImpl K True pattern w of
                  (Some e, w') \<Rightarrow> (Some e, (minLostPoint, bestPattern, w'))
                | (None, w') \<Rightarrow>
                    (case LostPoint (modules (qr w')) of
                       Inl e \<Rightarrow> (Some e, (minLostPoint, bestPattern, w'))
                     | Inr lostPoint \<Rightarrow>
                         (None,
                          if pattern = 0 \<or> minLostPoint > lostPoint
                          then (lostPoint, pattern, w')
                          else (minLostPoint, bestPattern, w'))))
             (9223372036854775807, 0, w) of
        (Some e, (minLostPoint, bestPattern, w')) \<Rightarrow> (Inl e, w')
      | (None, (minLostPoint, bestPattern, w')) \<Rightarrow> (Inr bestPattern, w'))"

text \<open>
  \<open>Make\<close> returns an \<open>error\<close>, and every path returns nil: the result is \<open>None\<close>, or the
  panic that stopped the build, with the world as it was left.
\<close>

definition Make :: "constants \<Rightarrow> bool \<Rightarrow> world \<Rightarrow> failure option \<times> world" where
  "Make K fit w =
     (case (if fit then Inr True else bnd (Version (qr w)) (\<lambda>v. Inr (v = 0))) of
        Inl e \<Rightarrow> (Some e, w)
      | Inr doFit \<Rightarrow>
     (case (if doFit then bnd (Version (qr w)) (BestFit (qr w)) else Inr 0) of
        Inl e \<Rightarrow> (Some e, w)
      | Inr fitted \<Rightarrow>
     (case Version (qr w) of
        Inl e \<Rightarrow> (Some e, w)
      | Inr printed \<Rightarrow>
          if maskPattern (qr w) = 0
          then (case BestMaskPattern K w of
                  (Inl e, w') \<Rightarrow> (Some e, w')
                | (Inr best, w') \<Rightarrow> MakeImpl K False best w')
          else MakeImpl K False (maskPattern (qr w)) w)))"

section \<open>Facts about the loops and the bit buffer\<close>

lemma go_div_nonneg [simp]: "0 \<le> a \<Longrightarrow> 0 < b \<Longrightarrow> go_div a b = a div b"
  by (cases "a = 0") (simp_all add: go_div_def)

lemma go_mod_nonneg [simp]: "0 \<le> a \<Longrightarrow> 0 < b \<Longrightarrow> go_mod a b = a mod b"
  by (simp add: go_mod_def minus_mult_div_eq_mod)

lemma for_loop_total:
  assumes "P s" and "\<And>i s. P s \<Longrightarrow> \<exists>s'. body i s = Inr s' \<and> P s'"
  shows "\<exists>s'. for_loop i n body s = Inr s' \<and> P s'"
  using assms
proof (induction i n body s rule: for_loop.induct)
  case (1 i n body s)
  show ?case
  proof (cases "i < n")
    case True
    from "1.prems"(2)[OF "1.prems"(1), of i] obtain s1 where s1: "body i s = Inr s1" "P s1"
      by blast
    from "1.IH"[OF True s1(1) s1(2) "1.prems"(2)] True s1(1) show ?thesis
      by (simp add: for_loop.simps[of i n body s])
  next
    case False
    with "1.prems" show ?thesis by (simp add: for_loop.simps[of i n body s])
  qed
qed

lemma for_loop_invariant:
  assumes "for_loop i n body s = Inr s'" and "P i s"
    and "\<And>k s s'. i \<le> k \<Longrightarrow> k < n \<Longrightarrow> P k s \<Longrightarrow> body k s = Inr s' \<Longrightarrow> P (k + 1) s'"
  shows "P (max i n) s'"
  using assms
proof (induction i n body s rule: for_loop.induct)
  case (1 i n body s)
  show ?case
  proof (cases "i < n")
    case True
    with "1.prems"(1) obtain s1 where s1: "body i s = Inr s1" "for_loop (i + 1) n body s1 = Inr s'"
      by (auto simp: for_loop.simps[of i n body s] split: sum.splits)
    have "P (i + 1) s1" using "1.prems"(3)[OF _ True "1.prems"(2) s1(1)] by simp
    from "1.IH"[OF True s1(1) s1(2) this] "1.prems"(3) True show ?thesis
      by (simp add: max_def)
  next
    case False
    with "1.prems" show ?thesis by (simp add: for_loop.simps[of i n body s] max_def)
  qed
qed

text \<open>
  A buffer is well formed when its backing bytes are just enough for its bits, and the
  bits of the last byte beyond the length are 0.
\<close>

definition bb_ok :: "BitBuffer \<Rightarrow> bool" where
  "bb_ok b \<longleftrightarrow>
     0 \<le> lengthB b \<and> len (buffer b) = (lengthB b + 7) div 8 \<and>
     (\<forall>i. lengthB b \<le> i \<and> i < 8 * len (buffer b)
          \<longrightarrow> \<not> bit (buffer b ! nat (i div 8)) (nat (7 - i mod 8)))"

lemma bb_ok_New: "bb_ok NewBitBuffer"
  by (auto simp: bb_ok_def NewBitBuffer_def len_def)

lemma bit_128_shift: "bit (drop_bit k (128::int)) n \<longleftrightarrow> n + k = 7"
proof -
  have e: "(128::int) = 2 ^ 7" by simp
  have "bit (drop_bit k (128::int)) n \<longleftrightarrow> bit (2 ^ 7 :: int) (k + n)"
    unfolding e by (simp only: bit_drop_bit_eq comp_def)
  also have "\<dots> \<longleftrightarrow> k + n = 7"
    by (simp only: bit_exp_iff) auto
  finally show ?thesis by (simp add: add.commute)
qed

lemma div8_unique: "0 \<le> r \<Longrightarrow> r < 8 \<Longrightarrow> (8 * q + r) div 8 = (q::int)"
  by simp

lemma decomp8:
  obtains q r :: int where "L = 8 * q + r" "0 \<le> r" "r < 8" "L div 8 = q" "L mod 8 = r"
proof -
  have "L = 8 * (L div 8) + L mod 8" "0 \<le> L mod 8" "L mod 8 < 8" by simp_all
  then show ?thesis using that by blast
qed

lemma bytes_full: "L mod 8 = 0 \<Longrightarrow> ((L::int) + 7) div 8 = L div 8"
proof -
  assume z: "L mod 8 = 0"
  obtain q r where d: "L = 8 * q + r" "0 \<le> r" "r < 8" "L div 8 = q" "L mod 8 = r"
    by (rule decomp8)
  with z have "L + 7 = 8 * q + 7" by simp
  then show ?thesis using div8_unique[of 7 q] d(4) by simp
qed

lemma bytes_part: "L mod 8 \<noteq> 0 \<Longrightarrow> ((L::int) + 7) div 8 = L div 8 + 1"
proof -
  assume n: "L mod 8 \<noteq> 0"
  obtain q r where d: "L = 8 * q + r" "0 \<le> r" "r < 8" "L div 8 = q" "L mod 8 = r"
    by (rule decomp8)
  have "L + 7 = 8 * (q + 1) + (r - 1)" using d(1) by simp
  moreover have "0 \<le> r - 1" "r - 1 < 8" using n d by simp_all
  ultimately show ?thesis using div8_unique[of "r - 1" "q + 1"] d(4) by simp
qed

lemma same_byte: "(L::int) \<le> i \<Longrightarrow> i < 8 * (L div 8 + 1) \<Longrightarrow> i div 8 = L div 8"
proof -
  assume i: "L \<le> i" "i < 8 * (L div 8 + 1)"
  obtain q r where d: "L = 8 * q + r" "0 \<le> r" "r < 8" "L div 8 = q" "L mod 8 = r"
    by (rule decomp8)
  have "i = 8 * q + (i - 8 * q)" by simp
  moreover have "0 \<le> i - 8 * q" "i - 8 * q < 8" using i d by simp_all
  ultimately show ?thesis using div8_unique[of "i - 8 * q" q] d(4) by simp
qed

lemma other_bit: "(L::int) + 1 \<le> i \<Longrightarrow> i div 8 = L div 8 \<Longrightarrow> i mod 8 \<noteq> L mod 8"
proof -
  assume i: "L + 1 \<le> i" "i div 8 = L div 8"
  obtain q r where d: "L = 8 * q + r" "L div 8 = q" "L mod 8 = r" by (rule decomp8)
  obtain q' r' where d': "i = 8 * q' + r'" "i div 8 = q'" "i mod 8 = r'" by (rule decomp8)
  from i d d' show ?thesis by simp
qed

lemma PutBit_ok:
  assumes "bb_ok b"
  shows "\<exists>b'. PutBit b v = Inr b' \<and> bb_ok b' \<and> lengthB b' = lengthB b + 1"
proof -
  define L where "L = lengthB b"
  define q where "q = L div 8"
  define r where "r = L mod 8"
  define buf where "buf = (if len (buffer b) \<le> q then buffer b @ [0] else buffer b)"
  from assms have L: "0 \<le> L" and ln: "len (buffer b) = (L + 7) div 8"
    and z: "\<And>i. L \<le> i \<Longrightarrow> i < 8 * len (buffer b)
              \<Longrightarrow> \<not> bit (buffer b ! nat (i div 8)) (nat (7 - i mod 8))"
    by (auto simp: bb_ok_def L_def)
  have r: "0 \<le> r" "r < 8" by (simp_all add: r_def)
  have q0: "0 \<le> q" using L by (simp add: q_def)
  have full: "r = 0 \<Longrightarrow> len (buffer b) = q"
    unfolding ln q_def r_def by (rule bytes_full)
  have part: "r \<noteq> 0 \<Longrightarrow> len (buffer b) = q + 1"
    unfolding ln q_def r_def by (rule bytes_part)
  have lbuf: "len buf = q + 1"
  proof (cases "r = 0")
    case True
    with full show ?thesis by (simp add: buf_def len_def)
  next
    case False
    with part show ?thesis by (simp add: buf_def)
  qed
  have q1: "q + 1 = (L + 1 + 7) div 8" unfolding q_def by simp
  have zbuf: "\<not> bit (buf ! nat (i div 8)) (nat (7 - i mod 8))"
    if i: "L \<le> i" "i < 8 * len buf" for i
  proof (cases "r = 0")
    case True
    with full have eq: "buf = buffer b @ [0]" and lb: "int (length (buffer b)) = q"
      by (simp_all add: buf_def len_def)
    have "i div 8 = q" using i lbuf unfolding q_def by (intro same_byte) simp_all
    with lb have "nat (i div 8) = length (buffer b)" by simp
    then show ?thesis by (simp add: eq nth_append)
  next
    case False
    with part have eq: "buf = buffer b" by (simp add: buf_def)
    with z[OF i(1)] i(2) show ?thesis by simp
  qed
  have gd: "go_div L 8 = q" and gm: "go_mod L 8 = r" and nn: "\<not> r < 0"
    using L r by (simp_all add: q_def r_def)
  have put: "PutBit b v =
      (if v then bnd (at buf q) (\<lambda>old.
                 bnd (upd buf q (old OR drop_bit (nat r) 128)) (\<lambda>buf'. Inr (BitBuffer buf' (L + 1))))
       else Inr (BitBuffer buf (L + 1)))"
    unfolding PutBit_def Let_def L_def[symmetric] gd gm buf_def[symmetric]
    using nn by (simp only: if_False)
  show ?thesis
  proof (cases v)
    case False
    then have "PutBit b v = Inr (BitBuffer buf (L + 1))" unfolding put by simp
    moreover have "bb_ok (BitBuffer buf (L + 1))"
      unfolding bb_ok_def BitBuffer.sel
    proof (intro conjI allI impI)
      show "0 \<le> L + 1" using L by simp
      show "len buf = (L + 1 + 7) div 8" using lbuf q1 by simp
      fix i assume "L + 1 \<le> i \<and> i < 8 * len buf"
      then show "\<not> bit (buf ! nat (i div 8)) (nat (7 - i mod 8))" using zbuf[of i] by simp
    qed
    ultimately show ?thesis by (simp add: L_def)
  next
    case True
    define k where "k = nat r"
    define old where "old = buf ! nat q"
    define x where "x = old OR drop_bit k 128"
    define buf' where "buf' = buf[nat q := x]"
    have a1: "at buf q = Inr old" using q0 lbuf by (simp add: at_eq old_def)
    have a2: "upd buf q x = Inr buf'" using q0 lbuf by (simp add: upd_eq buf'_def)
    have "PutBit b v = Inr (BitBuffer buf' (L + 1))"
      unfolding put k_def[symmetric] using True by (simp add: a1 x_def[symmetric] a2)
    moreover have "bb_ok (BitBuffer buf' (L + 1))"
    proof -
      have l': "len buf' = q + 1" using lbuf by (simp add: buf'_def len_def)
      have "\<not> bit (buf' ! nat (i div 8)) (nat (7 - i mod 8))"
        if i: "L + 1 \<le> i" "i < 8 * len buf'" for i
      proof -
        define ri where "ri = i mod 8"
        have ri: "0 \<le> ri" "ri < 8" by (simp_all add: ri_def)
        from i l' lbuf have zi: "\<not> bit (buf ! nat (i div 8)) (nat (7 - ri))"
          using zbuf[of i] by (simp add: ri_def)
        show ?thesis
        proof (cases "i div 8 = q")
          case same: True
          have "ri \<noteq> r" unfolding ri_def r_def using i(1) same[unfolded q_def] by (rule other_bit)
          with ri r have "nat (7 - ri) + k \<noteq> 7" unfolding k_def by linarith
          moreover have "buf' ! nat (i div 8) = old OR drop_bit k 128"
            using same q0 lbuf by (simp add: buf'_def len_def x_def)
          moreover have "\<not> bit old (nat (7 - ri))" using zi same by (simp add: old_def)
          ultimately show ?thesis by (simp add: bit_or_iff bit_128_shift ri_def[symmetric])
        next
          case False
          have "0 \<le> i div 8" using i(1) L by simp
          with False q0 have "nat (i div 8) \<noteq> nat q" by simp
          then show ?thesis using zi by (simp add: buf'_def ri_def)
        qed
      qed
      then show ?thesis unfolding bb_ok_def BitBuffer.sel using L l' q1 by simp
    qed
    ultimately show ?thesis by (simp add: L_def)
  qed
qed

lemma Put_ok:
  assumes "bb_ok b"
  shows "\<exists>b'. Put b n l = Inr b' \<and> bb_ok b' \<and> lengthB b' = lengthB b + max 0 l"
proof -
  let ?body = "\<lambda>i b. PutBit b ((drop_bit (nat (l - i - 1)) n) AND 1 = 1)"
  have "\<exists>b'. for_loop 0 l ?body b = Inr b' \<and> bb_ok b'"
    by (rule for_loop_total[where P = bb_ok, OF assms]) (use PutBit_ok in blast)
  then obtain b' where b': "for_loop 0 l ?body b = Inr b'" "bb_ok b'" by blast
  have "bb_ok b' \<and> lengthB b' = lengthB b + max 0 l"
  proof (rule for_loop_invariant[where P = "\<lambda>i s. bb_ok s \<and> lengthB s = lengthB b + i", OF b'(1)])
    show "bb_ok b \<and> lengthB b = lengthB b + 0" using assms by simp
  next
    fix k s s'
    assume "bb_ok s \<and> lengthB s = lengthB b + k" and "?body k s = Inr s'"
    then show "bb_ok s' \<and> lengthB s' = lengthB b + (k + 1)"
      using PutBit_ok[of s "(drop_bit (nat (l - k - 1)) n) AND 1 = 1"] by auto
  qed
  with b'(1) show ?thesis by (simp add: Put_def)
qed

lemma Write_numeric_ok: "bb_ok b \<Longrightarrow> \<exists>b'. Write_numeric cs b = Inr b' \<and> bb_ok b'"
proof (induction cs b rule: Write_numeric.induct)
  case (2 c0 c1 c2 rest b)
  from Put_ok[OF "2.prems", of "bytesToInt [c0, c1, c2]" "lookup0 NumberLength 3"]
  obtain b1 where b1: "Put b (bytesToInt [c0, c1, c2]) (lookup0 NumberLength 3) = Inr b1" "bb_ok b1"
    by blast
  from "2.IH"[OF b1(2)] b1(1) show ?case by simp
qed (use Put_ok in \<open>auto, blast+\<close>)

lemma Write_alphanumeric_ok: "bb_ok b \<Longrightarrow> \<exists>b'. Write_alphanumeric cs b = Inr b' \<and> bb_ok b'"
proof (induction cs b rule: Write_alphanumeric.induct)
  case (2 c0 c1 rest b)
  from Put_ok[OF "2.prems", of "alphanumericIndex c0 * 45 + alphanumericIndex c1" 11]
  obtain b1 where b1: "Put b (alphanumericIndex c0 * 45 + alphanumericIndex c1) 11 = Inr b1" "bb_ok b1"
    by blast
  from "2.IH"[OF b1(2)] b1(1) show ?case by simp
qed (use Put_ok in \<open>auto, blast+\<close>)

lemma Write_byte_ok: "bb_ok b \<Longrightarrow> \<exists>b'. Write_byte cs b = Inr b' \<and> bb_ok b'"
proof (induction cs b rule: Write_byte.induct)
  case (2 c rest b)
  from Put_ok[OF "2.prems", of "of_char c" 8]
  obtain b1 where b1: "Put b (of_char c) 8 = Inr b1" "bb_ok b1" by blast
  from "2.IH"[OF b1(2)] b1(1) show ?case by simp
qed simp

lemma Write_ok: "bb_ok b \<Longrightarrow> \<exists>b'. Write d b = Inr b' \<and> bb_ok b'"
  unfolding Write_def using Write_numeric_ok Write_alphanumeric_ok Write_byte_ok by simp

lemma BestFit_segments_ok:
  "bb_ok b \<Longrightarrow> \<exists>b'. BestFit_segments modeSizes ds b = Inr b' \<and> bb_ok b'"
proof (induction ds arbitrary: b)
  case Nil
  then show ?case by simp
next
  case (Cons d ds)
  from Put_ok[OF Cons.prems, of "GetMode d" 4]
  obtain b1 where b1: "Put b (GetMode d) 4 = Inr b1" "bb_ok b1" by blast
  from Put_ok[OF b1(2), of "QRData_Len d" "lookup0 modeSizes (GetMode d)"]
  obtain b2 where b2: "Put b1 (QRData_Len d) (lookup0 modeSizes (GetMode d)) = Inr b2" "bb_ok b2"
    by blast
  from Write_ok[OF b2(2), of d] obtain b3 where b3: "Write d b2 = Inr b3" "bb_ok b3" by blast
  from Cons.IH[OF b3(2)] b1(1) b2(1) b3(1) show ?case by simp
qed

lemma Version_valid: "version q \<noteq> 0 \<Longrightarrow> Version q = Inr (version q)"
  by (simp add: Version.simps)

lemma BestFit_same_bucket:
  assumes "CheckVersion start" and "version q \<noteq> 0" and "version q \<noteq> 41"
    and "ModeSizeVersion start = ModeSizeVersion (version q)"
  shows "BestFit q start = Inr (version q)"
proof -
  from BestFit_segments_ok[OF bb_ok_New, of "ModeSizeVersion start" "DataList q"]
  obtain buf where "BestFit_segments (ModeSizeVersion start) (DataList q) NewBitBuffer = Inr buf"
    by blast
  with assms show ?thesis by (simp add: BestFit.simps[of q start] Version_valid)
qed

lemma BestFit_unchanged:
  assumes "CheckVersion start" and "CheckVersion (version q)"
  shows "BestFit q start = Inr (version q)"
proof (cases "ModeSizeVersion start = ModeSizeVersion (version q)")
  case True
  with assms show ?thesis by (intro BestFit_same_bucket) (auto simp: CheckVersion_def)
next
  case False
  from assms(2) have v: "version q \<noteq> 0" "version q \<noteq> 41" by (auto simp: CheckVersion_def)
  from BestFit_segments_ok[OF bb_ok_New, of "ModeSizeVersion start" "DataList q"]
  obtain buf where "BestFit_segments (ModeSizeVersion start) (DataList q) NewBitBuffer = Inr buf"
    by blast
  moreover have "BestFit q (version q) = Inr (version q)"
    using assms(2) v by (intro BestFit_same_bucket) auto
  ultimately show ?thesis using assms(1) v False
    by (simp add: BestFit.simps[of q start] Version_valid)
qed

lemma Version_auto: "version q = 0 \<Longrightarrow> Version q = Inl (Panic (InvalidVersion 0))"
  by (simp add: Version.simps BestFit.simps[of q 0] CheckVersion_def)

lemma BestFit_auto:
  assumes "version q = 0"
  shows "BestFit q start = Inl (Panic (InvalidVersion (if CheckVersion start then 0 else start)))"
proof (cases "CheckVersion start")
  case True
  from BestFit_segments_ok[OF bb_ok_New, of "ModeSizeVersion start" "DataList q"]
  obtain buf where "BestFit_segments (ModeSizeVersion start) (DataList q) NewBitBuffer = Inr buf"
    by blast
  with True assms show ?thesis by (simp add: BestFit.simps[of q start] Version_auto)
next
  case False
  then show ?thesis by (simp add: BestFit.simps[of q start])
qed

text \<open>The buffers that \<open>NewBitBuffer\<close>, \<open>PutBit\<close> and \<open>Put\<close> can produce.\<close>

inductive built :: "BitBuffer \<Rightarrow> bool" where
  new: "built NewBitBuffer"
| putbit: "built b \<Longrightarrow> PutBit b v = Inr b' \<Longrightarrow> built b'"
| put: "built b \<Longrightarrow> Put b n l = Inr b' \<Longrightarrow> built b'"

lemma built_ok: "built b \<Longrightarrow> bb_ok b"
proof (induction rule: built.induct)
  case new
  show ?case by (rule bb_ok_New)
next
  case (putbit b v b')
  with PutBit_ok[of b v] show ?case by auto
next
  case (put b n l b')
  with Put_ok[of b n l] show ?case by auto
qed

lemma low_bit_iff: "(drop_bit n (a::int) AND 1 = 1) \<longleftrightarrow> bit a n"
  by (simp add: bit_iff_odd_drop_bit and_one_eq mod_2_eq_odd)

lemma Get_beyond:
  assumes "bb_ok b" and "lengthB b \<le> i"
  shows "BitBuffer_Get b i =
           (if i < 8 * len (buffer b) then Inr False else Inl (Panic IndexOutOfRange))"
proof -
  from assms have i0: "0 \<le> i" by (simp add: bb_ok_def)
  define q where "q = i div 8"
  define r where "r = i mod 8"
  have r: "0 \<le> r" "r < 8" by (simp_all add: r_def)
  have g: "go_div i 8 = q" "go_mod i 8 = r" using i0 by (simp_all add: q_def r_def)
  have q0: "0 \<le> q" using i0 by (simp add: q_def)
  have iq: "i = 8 * q + r" by (simp add: q_def r_def)
  have lt: "q < len (buffer b) \<longleftrightarrow> i < 8 * len (buffer b)" using iq r by linarith
  show ?thesis
  proof (cases "i < 8 * len (buffer b)")
    case True
    with assms have "\<not> bit (buffer b ! nat q) (nat (7 - r))"
      by (simp add: bb_ok_def q_def r_def)
    with True lt q0 r show ?thesis
      by (simp add: BitBuffer_Get_def g at_eq low_bit_iff)
  next
    case False
    with lt q0 show ?thesis by (simp add: BitBuffer_Get_def g at_eq)
  qed
qed

section \<open>Properties\<close>

subsection \<open>Masks\<close>

text \<open>
  The mask transform at every position of a matrix of module values: the module in
  row \<open>i\<close> and column \<open>j\<close> is flipped exactly when the mask predicate holds at \<open>(i, j)\<close>.
\<close>

definition mask_row :: "(int \<Rightarrow> int \<Rightarrow> bool) \<Rightarrow> int \<Rightarrow> bool list \<Rightarrow> bool list" where
  "mask_row maskFunc i row = map (\<lambda>(j, v). apply_mask maskFunc i (int j) v) (enumerate 0 row)"

definition mask_matrix :: "(int \<Rightarrow> int \<Rightarrow> bool) \<Rightarrow> bool list list \<Rightarrow> bool list list" where
  "mask_matrix maskFunc m = map (\<lambda>(i, row). mask_row maskFunc (int i) row) (enumerate 0 m)"

lemma apply_mask_twice: "apply_mask f i j (apply_mask f i j v) = v"
  by (simp add: apply_mask_def)

lemma map_enumerate_id:
  "(\<And>k x. g k (f k x) = x) \<Longrightarrow>
     map (\<lambda>(k, x). g k x) (enumerate n (map (\<lambda>(k, x). f k x) (enumerate n xs))) = xs"
  by (induction xs arbitrary: n) auto

lemma mask_row_twice: "mask_row f i (mask_row f i row) = row"
  unfolding mask_row_def
  by (rule map_enumerate_id) (simp add: apply_mask_twice)

lemma mask_matrix_twice: "mask_matrix f (mask_matrix f m) = m"
  unfolding mask_matrix_def
  by (rule map_enumerate_id) (simp add: mask_row_twice)

text \<open>
  C5.  For every mask pattern from 0 to 7, \<open>MaskFunc\<close> returns a predicate, and the mask
  transform with that predicate (flip the value at \<open>(i, j)\<close> exactly when the predicate
  holds there) applied twice at any position gives the value back; hence the transform
  applied twice to any matrix gives the matrix back.
\<close>

theorem C5_mask_involution:
  assumes "0 \<le> m" and "m \<le> 7"
  shows "\<exists>f. MaskFunc m = Inr f
           \<and> (\<forall>i j v. apply_mask f i j (apply_mask f i j v) = v)
           \<and> (\<forall>M. mask_matrix f (mask_matrix f M) = M)"
proof -
  from assms have "m = 0 \<or> m = 1 \<or> m = 2 \<or> m = 3 \<or> m = 4 \<or> m = 5 \<or> m = 6 \<or> m = 7"
    by arith
  then obtain f where "MaskFunc m = Inr f"
    unfolding MaskFunc_def by auto
  then show ?thesis
    using apply_mask_twice mask_matrix_twice by blast
qed

theorem C5_mask_involution_witness:
  "(0::int) \<le> 3 \<and> (3::int) \<le> 7 \<and>
   (\<exists>f. MaskFunc 3 = Inr f
      \<and> apply_mask f 1 2 (apply_mask f 1 2 True) = True
      \<and> mask_matrix f (mask_matrix f [[True, False, True], [False, False, True]])
          = [[True, False, True], [False, False, True]])"
  using C5_mask_involution [of 3] by auto

subsection \<open>Sample inputs\<close>

text \<open>
  The values of the four level constants used in the closed examples below: the
  two-bit level indicators of the standard.
\<close>

definition encoded_levels :: constants where
  "encoded_levels = \<lparr>ERROR_CORRECT_L = 1, ERROR_CORRECT_M = 0, ERROR_CORRECT_Q = 3, ERROR_CORRECT_H = 2\<rparr>"

text \<open>A new symbol, as \<open>NewQRCode\<close> and \<open>Clear\<close> leave it, with its segments added.\<close>

definition new_symbol :: "int \<Rightarrow> int \<Rightarrow> int \<Rightarrow> QRData list \<Rightarrow> QRCode" where
  "new_symbol v ec mp segments =
     \<lparr>modules = [], modulesCount = 0, version = v, errorCorrection = ec, BoxSize = 10,
      border = 4, maskPattern = mp, DataList = segments, dataCache = None\<rparr>"

definition new_world :: "QRCode \<Rightarrow> world" where
  "new_world q = \<lparr>qr = q, precomputedQRBlanks = Map.empty, fresh = 0\<rparr>"

subsection \<open>Best fit\<close>

definition twenty_bytes :: QRCode where
  "twenty_bytes = new_symbol 1 1 5 [QRData ''AAAAAAAAAAAAAAAAAAAA'' ModeByte]"

text \<open>
  C1.  \<open>BestFit\<close> does not choose a version.  For every symbol whose version is in
  \<open>[1, 40]\<close>, whatever its segments and level, \<open>BestFit\<close> returns that version, and never
  the panic \<open>Data overflow error\<close>; for a symbol whose version is 0 (auto) it panics with
  \<open>Invalid version: 0\<close>.  The claim (the smallest version whose capacity holds the
  encoded bits, \<open>DataOverflow\<close> beyond version 40) fails on the code.
\<close>

theorem C1_BestFit_returns_the_version:
  "(CheckVersion start \<and> CheckVersion (version q) \<longrightarrow> BestFit q start = Inr (version q)) \<and>
   (version q = 0 \<longrightarrow>
      BestFit q start = Inl (Panic (InvalidVersion (if CheckVersion start then 0 else start))))"
  using BestFit_unchanged[of start q] BestFit_auto[of q start] by blast

text \<open>
  At version 1 and level L the 20 bytes need 172 bits, version 1 holds 152 and version
  2 holds 272: the claim asks for version 2, the code stays at version 1.
\<close>

theorem C1_BestFit_returns_the_version_witness:
  "CheckVersion 1 \<and> CheckVersion (version twenty_bytes) \<and>
   BestFit twenty_bytes 1 = Inr 1 \<and>
   bnd (BestFit_segments (ModeSizeVersion 1) (DataList twenty_bytes) NewBitBuffer)
       (\<lambda>b. Inr (BitBuffer_Len b)) = Inr 172 \<and>
   BIT_LIMIT_TABLE encoded_levels 1 1 = Inr 152 \<and>
   BIT_LIMIT_TABLE encoded_levels 1 2 = Inr 272"
proof -
  have v: "CheckVersion 1" "CheckVersion (version twenty_bytes)" "version twenty_bytes = 1"
    by (simp_all add: CheckVersion_def twenty_bytes_def new_symbol_def)
  have "BestFit twenty_bytes 1 = Inr 1"
    using C1_BestFit_returns_the_version[of 1 twenty_bytes] v by simp
  moreover have "bnd (BestFit_segments (ModeSizeVersion 1) (DataList twenty_bytes) NewBitBuffer)
       (\<lambda>b. Inr (BitBuffer_Len b)) = Inr 172"
    by code_simp
  moreover have "BIT_LIMIT_TABLE encoded_levels 1 1 = Inr 152" by code_simp
  moreover have "BIT_LIMIT_TABLE encoded_levels 1 2 = Inr 272" by code_simp
  ultimately show ?thesis using v by simp
qed

subsection \<open>Reading the bit buffer\<close>

text \<open>
  C6, as the claim states it, fails: after one bit has been appended, \<open>Get(1)\<close> reads
  past the length and returns \<open>false\<close>.
\<close>

theorem C6_Get_past_length_counterexample:
  "PutBit NewBitBuffer True = Inr (BitBuffer [128] 1) \<and>
   BitBuffer_Len (BitBuffer [128] 1) = 1 \<and>
   BitBuffer_Get (BitBuffer [128] 1) 1 = Inr False"
  by code_simp

text \<open>
  C6, amended.  For every buffer that \<open>NewBitBuffer\<close>, \<open>PutBit\<close> and \<open>Put\<close> produce, the
  backing bytes are \<open>ceil(Len / 8)\<close>, and \<open>Get(i)\<close> at \<open>i \<ge> Len\<close> panics (index out of
  range) exactly when \<open>i\<close> lies beyond the backing bytes; within the last byte it
  returns \<open>false\<close>.
\<close>

theorem C6_Get_past_length:
  assumes "built b" and "BitBuffer_Len b \<le> i"
  shows "len (buffer b) = (BitBuffer_Len b + 7) div 8 \<and>
         BitBuffer_Get b i =
           (if i < 8 * len (buffer b) then Inr False else Inl (Panic IndexOutOfRange))"
proof -
  from assms(1) have ok: "bb_ok b" by (rule built_ok)
  then have "len (buffer b) = (BitBuffer_Len b + 7) div 8"
    by (simp add: bb_ok_def BitBuffer_Len_def)
  moreover from Get_beyond[OF ok, of i] assms(2) have
    "BitBuffer_Get b i = (if i < 8 * len (buffer b) then Inr False else Inl (Panic IndexOutOfRange))"
    by (simp add: BitBuffer_Len_def)
  ultimately show ?thesis by simp
qed

theorem C6_Get_past_length_witness:
  "built (BitBuffer [128] 1) \<and> BitBuffer_Len (BitBuffer [128] 1) \<le> 8 \<and>
   len (buffer (BitBuffer [128] 1)) = 1 \<and>
   BitBuffer_Get (BitBuffer [128] 1) 8 = Inl (Panic IndexOutOfRange)"
proof -
  have p: "PutBit NewBitBuffer True = Inr (BitBuffer [128] 1)" by code_simp
  have b: "built (BitBuffer [128] 1)" by (rule built.putbit[OF built.new p])
  have l: "BitBuffer_Len (BitBuffer [128] 1) \<le> 8" by (simp add: BitBuffer_Len_def)
  from C6_Get_past_length[OF b l] b l show ?thesis
    by (simp add: len_def BitBuffer_Len_def)
qed

subsection \<open>The chunker\<close>

text \<open>
  C7.  The chunker drops what follows the alphanumeric match: for the six bytes
  \<open>ABCDE!\<close> and \<open>minimum = 4\<close> it returns the single segment \<open>ABCDE\<close>, and the payloads
  no longer make up the input.
\<close>

theorem C7_chunker_drops_the_tail:
  "OptimalDataChunks ''ABCDE!'' 4 = Inr [QRData ''ABCDE'' ModeAlphanumeric] \<and>
   concat (map data [QRData ''ABCDE'' ModeAlphanumeric]) \<noteq> ''ABCDE!''"
  by code_simp

subsection \<open>Rule 1 of the penalty\<close>

text \<open>
  Rule 1 in the words of the specification: in every row and every column, every
  maximal run of at least five modules of one colour adds its length minus 2.
\<close>

fun run_penalty :: "bool \<Rightarrow> int \<Rightarrow> bool list \<Rightarrow> int" where
  "run_penalty colour n [] = (if n \<ge> 5 then n - 2 else 0)"
| "run_penalty colour n (x # xs) =
     (if x = colour then run_penalty colour (n + 1) xs
      else (if n \<ge> 5 then n - 2 else 0) + run_penalty x 1 xs)"

fun line_penalty :: "bool list \<Rightarrow> int" where
  "line_penalty [] = 0"
| "line_penalty (x # xs) = run_penalty x 1 xs"

definition rule1_spec :: "bool list list \<Rightarrow> int" where
  "rule1_spec m = sum_list (map line_penalty m) + sum_list (map line_penalty (transpose m))"

text \<open>
  A matrix of \<open>n\<close> by \<open>n\<close> dark modules, each module a variable of its own, as the
  builder assigns them.
\<close>

definition dark_square :: "nat \<Rightarrow> ModulesType" where
  "dark_square n = map (\<lambda>i. map (\<lambda>j. Some (Ptr (int (i * n + j)) True)) [0..<n]) [0..<n]"

definition colours :: "ModulesType \<Rightarrow> bool list list" where
  "colours m = map (map (\<lambda>c. case c of None \<Rightarrow> False | Some p \<Rightarrow> deref p)) m"

text \<open>
  C4.  \<open>lostPointLevel1\<close> compares the pointers \<open>thisRow[col] == previousColor\<close>, not the
  colours.  On six rows of six dark modules, where the rule gives \<open>12 * (6 - 2) = 48\<close>,
  it returns 0.
\<close>

theorem C4_rule1_compares_pointers:
  "lostPointLevel1 (dark_square 6) 6 = Inr 0 \<and> rule1_spec (colours (dark_square 6)) = 48"
  by code_simp

subsection \<open>Unset modules after a build\<close>

definition hello_world :: world where
  "hello_world = new_world (new_symbol 1 3 5 [QRData ''HELLO WORLD'' ModeAlphanumeric])"

text \<open>
  C8.  A completed build leaves modules nil.  The loop of \<open>MapData\<close> decrements its
  loop variable (\<open>if col <= 6 { col-- }\<close>) and then steps by two, so from column 8 on
  it visits the pairs (5, 4) and (2, 1) and never the columns 3 and 0.  For
  \<open>HELLO WORLD\<close> at version 1, level Q and mask 5 the build ends without a panic and
  eight modules are nil, the module in row 9 and column 0 among them.
\<close>

theorem C8_build_leaves_nil_modules:
  "(case Make encoded_levels True hello_world of
      (r, w) \<Rightarrow> r = None \<and> len (modules (qr w)) = 21 \<and>
                at2 (modules (qr w)) 9 0 = Inr None \<and> at2 (modules (qr w)) 12 3 = Inr None \<and>
                length (filter (\<lambda>c. c = None) (concat (modules (qr w)))) = 8)"
  by code_simp

subsection \<open>A build that fails\<close>

text \<open>
  C9, as the claim states it, fails.  The 20 bytes do not fit version 1 at level L:
  \<open>Make\<close> does not return the error of \<open>CreateData\<close>, it panics with it, and the symbol
  is left with \<open>modulesCount = 21\<close> and the 21 rows of the function patterns, where it
  had \<open>modulesCount = 0\<close> and no modules before.
\<close>

theorem C9_failed_build_counterexample:
  "(case Make encoded_levels True (new_world twenty_bytes) of
      (r, w) \<Rightarrow> r = Some (Panic (PanicErr (ErrCodeLengthOverflow 172 152))) \<and>
                modulesCount (qr w) = 21 \<and> len (modules (qr w)) = 21 \<and>
                precomputedQRBlanks w 1 \<noteq> None) \<and>
   modulesCount (qr (new_world twenty_bytes)) = 0 \<and>
   modules (qr (new_world twenty_bytes)) = [] \<and>
   precomputedQRBlanks (new_world twenty_bytes) 1 = None"
  by code_simp

subsection \<open>The mask of a build\<close>

definition hello_auto :: world where
  "hello_auto = new_world (new_symbol 1 3 0 [QRData ''HELLO WORLD'' ModeAlphanumeric])"

text \<open>
  C3, as the claim states it, fails at the mask pattern 0: \<open>Make\<close> does not build with
  mask 0 directly, it calls \<open>BestMaskPattern\<close>, whose scoring stops the build with a nil
  pointer dereference, while \<open>MakeImpl\<close> with mask 0 builds the symbol.
\<close>

theorem C3_mask_zero_counterexample:
  "maskPattern (qr hello_auto) = 0 \<and>
   fst (Make encoded_levels True hello_auto) = Some (Panic NilDereference) \<and>
   fst (MakeImpl encoded_levels False 0 hello_auto) = None"
  by code_simp

end
